theory Spec2Isabelle
  imports Complex_Main
begin

section \<open>Conventions of the embedding\<close>

text \<open>
  The program is a Python signal chain on lists of floats. Python's \<^verbatim>\<open>float\<close> is
  embedded as \<^typ>\<open>real\<close>: every arithmetic operation is read as the exact operation it
  rounds, so the theorems below speak about the algorithms in exact arithmetic and say
  nothing about rounding, overflow to infinity or NaN. Decimal constants of the source
  (\<^verbatim>\<open>1e-15\<close>, \<^verbatim>\<open>9.536743e-07\<close>, \<^verbatim>\<open>0.822\<close>) are the decimals themselves.

  Every operation of the source that can raise is a branch of the model: a float division
  by zero, an index beyond the end of a list, \<^verbatim>\<open>math.pow\<close> outside its domain, a result
  of \<^verbatim>\<open>math.pow\<close> or \<^verbatim>\<open>math.exp\<close> beyond the largest float, an empty curve table. A function that can raise returns \<open>py_error + result\<close>, with \<open>Inl\<close> the
  exception, and the state reached before the exception is dropped.

  A method that mutates its object takes the object's record and returns the updated one;
  a method that writes into its argument lists returns the written lists. The two sample
  lists of a call are distinct objects, as they are at every call site of the repository.
\<close>

datatype py_error = ZeroDivisionError | IndexError | ValueError | OverflowError

text \<open>Sequencing of calls that can raise: the first exception ends the computation.\<close>

fun and_then :: "py_error + 'a \<Rightarrow> ('a \<Rightarrow> py_error + 'b) \<Rightarrow> py_error + 'b" where
  "and_then (Inl e) f = Inl e"
| "and_then (Inr x) f = f x"

definition py_div :: "real \<Rightarrow> real \<Rightarrow> py_error + real" where
  "py_div a b = (if b = 0 then Inl ZeroDivisionError else Inr (a / b))"

text \<open>
  The largest finite double. \<^verbatim>\<open>math.pow\<close> and \<^verbatim>\<open>math.exp\<close> raise a range error when
  their result is beyond it; the model compares the exact result with it.
\<close>

definition DBL_MAX :: real where
  "DBL_MAX = (2 - 1 / 2 ^ 52) * 2 ^ 1023"

definition range_checked :: "real \<Rightarrow> py_error + real" where
  "range_checked r = (if \<bar>r\<bar> > DBL_MAX then Inl OverflowError else Inr r)"

text \<open>
  \<^verbatim>\<open>math.pow(x, y)\<close>: 1 for a zero exponent, a domain error for zero to a negative power
  and for a negative base with a fractional exponent, a range error for a result beyond
  the largest float.
\<close>

definition py_pow :: "real \<Rightarrow> real \<Rightarrow> py_error + real" where
  "py_pow x y =
     (if y = 0 then Inr 1
      else if x = 0 then (if y < 0 then Inl ValueError else Inr 0)
      else if x < 0 then
        (if y = of_int \<lfloor>y\<rfloor> then range_checked (x powi \<lfloor>y\<rfloor>) else Inl ValueError)
      else range_checked (x powr y))"

definition py_exp :: "real \<Rightarrow> py_error + real" where
  "py_exp x = range_checked (exp x)"

section \<open>StereoGainMeter (gain.py): the ramped gain stage\<close>

record StereoGainMeter =
  initialized :: bool
  stored_target_gain :: real
  start_gain :: real
  current_gain :: real
  ramp_step :: real
  meter_coeff_l :: real
  meter_coeff_r :: real
  meter_state_l :: real
  meter_state_r :: real

definition StereoGainMeter_init :: "real \<Rightarrow> real \<Rightarrow> StereoGainMeter" where
  "StereoGainMeter_init coeff_l coeff_r =
     \<lparr> initialized = False, stored_target_gain = 0, start_gain = 0, current_gain = 0,
       ramp_step = 0, meter_coeff_l = coeff_l, meter_coeff_r = coeff_r,
       meter_state_l = 0, meter_state_r = 0 \<rparr>"

text \<open>Step 1 of \<^verbatim>\<open>process_block\<close>: the target gain from the configuration.\<close>

definition target_of :: "int \<Rightarrow> real \<Rightarrow> real \<Rightarrow> real" where
  "target_of config_mode config_val_normal config_val_boost =
     (if config_mode = 1 then config_val_boost * 2 else config_val_normal)"

text \<open>
  Step 2: the ramp set-up, followed by the store of the new target. The division
  \<^verbatim>\<open>1.0 / float(block_size)\<close> raises on an empty block, before anything is written.
\<close>

definition setup_ramp :: "StereoGainMeter \<Rightarrow> real \<Rightarrow> nat \<Rightarrow> py_error + StereoGainMeter" where
  "setup_ramp s target_gain block_size =
     (if \<not> initialized s then
        Inr (s\<lparr> initialized := True, start_gain := target_gain,
                stored_target_gain := target_gain, ramp_step := 0,
                current_gain := target_gain \<rparr>)
      else
        (let diff = target_gain - stored_target_gain s in
         if \<bar>diff\<bar> \<ge> 1 / 10 ^ 15 then
           and_then (py_div 1 (real block_size))
             (\<lambda>step. Inr (s\<lparr> ramp_step := step, start_gain := stored_target_gain s,
                             stored_target_gain := target_gain \<rparr>))
         else
           Inr (s\<lparr> ramp_step := 0, start_gain := target_gain,
                   stored_target_gain := target_gain \<rparr>)))"

text \<open>The gain of one sample, from the ramp counter already incremented.\<close>

definition calculated_gain :: "StereoGainMeter \<Rightarrow> real \<Rightarrow> real \<Rightarrow> real" where
  "calculated_gain s target_gain ramp_counter =
     (let t = ramp_counter * ramp_step s in
      if ramp_step s > 0 then (1 - t) * start_gain s + t * target_gain else target_gain)"

text \<open>
  Step 3: the sample loop. The left sample is scaled and metered first; the read of the
  right sample raises when the right list is shorter. Samples of the right list beyond
  the length of the left list are not touched.
\<close>

fun gain_loop ::
  "real \<Rightarrow> real \<Rightarrow> StereoGainMeter \<Rightarrow> real list \<Rightarrow> real list \<Rightarrow>
     py_error + (real list \<times> real list \<times> StereoGainMeter)" where
  "gain_loop target_gain ramp_counter s [] right_samples = Inr ([], right_samples, s)"
| "gain_loop target_gain ramp_counter s (samp_l # ls) [] = Inl IndexError"
| "gain_loop target_gain ramp_counter s (samp_l # ls) (samp_r # rs) =
     (let g = calculated_gain s target_gain (ramp_counter + 1);
          out_l = samp_l * g;
          energy_l = out_l * out_l;
          out_r = samp_r * g;
          energy_r = out_r * out_r;
          s' = s\<lparr> current_gain := g,
                 meter_state_l := (energy_l - meter_state_l s) * meter_coeff_l s + meter_state_l s,
                 meter_state_r := (energy_r - meter_state_r s) * meter_coeff_r s + meter_state_r s \<rparr>
      in and_then (gain_loop target_gain (ramp_counter + 1) s' ls rs)
           (\<lambda>(outs_l, outs_r, s''). Inr (out_l # outs_l, out_r # outs_r, s'')))"

definition StereoGainMeter_process_block ::
  "StereoGainMeter \<Rightarrow> real list \<Rightarrow> real list \<Rightarrow> int \<Rightarrow> real \<Rightarrow> real \<Rightarrow>
     py_error + (real list \<times> real list \<times> StereoGainMeter)" where
  "StereoGainMeter_process_block s left_samples right_samples
       config_mode config_val_normal config_val_boost =
     (let target_gain = target_of config_mode config_val_normal config_val_boost;
          block_size = length left_samples
      in and_then (setup_ramp s target_gain block_size)
           (\<lambda>s1. gain_loop target_gain 0 s1 left_samples right_samples))"

definition get_meter_levels :: "StereoGainMeter \<Rightarrow> real \<times> real" where
  "get_meter_levels s = (meter_state_l s, meter_state_r s)"

section \<open>UnknownCompressor (compressor.py): the dynamics unit\<close>

text \<open>
  The attribute \<^verbatim>\<open>EPSILON\<close> is assigned once, in the constructor, to a literal and never
  written again: it is a constant of the model.
\<close>

definition EPSILON :: real where
  "EPSILON = 9536743 / 10 ^ 13"

record UnknownCompressor =
  sample_rate :: real
  mode :: int
  threshold :: real
  ratio :: real
  attack_time :: real
  release_time :: real
  rms_state :: real
  peak_state :: real
  gain_state :: real

definition UnknownCompressor_init :: "real \<Rightarrow> UnknownCompressor" where
  "UnknownCompressor_init rate =
     \<lparr> sample_rate = rate, mode = 2, threshold = 1, ratio = 4,
       attack_time = 0.002, release_time = 0.100,
       rms_state = 0, peak_state = 0, gain_state = 1 \<rparr>"

definition calc_coeff :: "UnknownCompressor \<Rightarrow> real \<Rightarrow> py_error + real" where
  "calc_coeff s time_seconds =
     (if time_seconds \<le> 0 then Inr 1
      else and_then (py_div (- 1) (time_seconds * sample_rate s))
             (\<lambda>q. and_then (py_exp q) (\<lambda>e. Inr (1 - e))))"

text \<open>The coefficients that \<^verbatim>\<open>process_block\<close> derives once, before its loop.\<close>

record block_coeffs =
  attack_coeff :: real
  release_coeff :: real
  rms_coeff :: real
  gain_smooth_coeff :: real
  slope :: real

text \<open>The detector stage of one sample: the envelope and the updated detector state.\<close>

definition detector ::
  "block_coeffs \<Rightarrow> UnknownCompressor \<Rightarrow> real \<Rightarrow> real \<Rightarrow> real \<times> UnknownCompressor" where
  "detector k s samp_l samp_r =
     (if mode s = 0 then
        (let power = (samp_l * samp_l + samp_r * samp_r) * 0.5;
             power = (if power \<le> EPSILON then EPSILON else power);
             rms = rms_state s + (power - rms_state s) * rms_coeff k
         in (sqrt (max 0 rms), s\<lparr> rms_state := rms \<rparr>))
      else
        (let abs_l = \<bar>samp_l\<bar>;
             abs_r = \<bar>samp_r\<bar>;
             input_level = (if abs_l > abs_r then abs_l else abs_r);
             coeff = (if input_level > peak_state s then attack_coeff k else release_coeff k);
             peak = peak_state s + (input_level - peak_state s) * coeff
         in (peak, s\<lparr> peak_state := peak \<rparr>)))"

text \<open>The gain computer stage: the target linear gain for an envelope value.\<close>

definition target_gain_linear :: "UnknownCompressor \<Rightarrow> real \<Rightarrow> real \<Rightarrow> py_error + real" where
  "target_gain_linear s sl current_env =
     (if threshold s < current_env then
        (let safe_env = (if current_env > EPSILON then current_env else EPSILON)
         in and_then (py_div (threshold s) safe_env) (\<lambda>ratio_calc. py_pow ratio_calc sl))
      else Inr 1)"

definition compressor_sample ::
  "block_coeffs \<Rightarrow> UnknownCompressor \<Rightarrow> real \<Rightarrow> real \<Rightarrow>
     py_error + (real \<times> real \<times> UnknownCompressor)" where
  "compressor_sample k s samp_l samp_r =
     (case detector k s samp_l samp_r of
        (current_env, s1) \<Rightarrow>
          and_then (target_gain_linear s1 (slope k) current_env)
            (\<lambda>tgt. let applied_gain = gain_state s1 + (tgt - gain_state s1) * gain_smooth_coeff k
                    in Inr (samp_l * applied_gain, samp_r * applied_gain,
                            s1\<lparr> gain_state := applied_gain \<rparr>)))"

text \<open>
  The loop runs over the left channel; the right output list has the length of the right
  input and keeps its initial zeros beyond the left channel's length.
\<close>

fun compressor_loop ::
  "block_coeffs \<Rightarrow> UnknownCompressor \<Rightarrow> real list \<Rightarrow> real list \<Rightarrow>
     py_error + (real list \<times> real list \<times> UnknownCompressor)" where
  "compressor_loop k s [] right_channel = Inr ([], map (\<lambda>_. 0) right_channel, s)"
| "compressor_loop k s (samp_l # ls) [] = Inl IndexError"
| "compressor_loop k s (samp_l # ls) (samp_r # rs) =
     and_then (compressor_sample k s samp_l samp_r)
       (\<lambda>(out_l, out_r, s').
          and_then (compressor_loop k s' ls rs)
            (\<lambda>(outs_l, outs_r, s''). Inr (out_l # outs_l, out_r # outs_r, s'')))"

text \<open>
  The set-up of \<^verbatim>\<open>process_block\<close>: four one-pole coefficients (attack, release, the
  fixed 50 ms RMS average, the fixed 5 ms gain smoothing) and the slope of the gain computer.
\<close>

definition derive_coeffs :: "UnknownCompressor \<Rightarrow> py_error + block_coeffs" where
  "derive_coeffs s =
     and_then (calc_coeff s (attack_time s)) (\<lambda>ac.
     and_then (calc_coeff s (release_time s)) (\<lambda>rc.
     and_then (calc_coeff s 0.050) (\<lambda>rmsc.
     and_then (calc_coeff s 0.005) (\<lambda>gsc.
       Inr \<lparr> attack_coeff = ac, release_coeff = rc, rms_coeff = rmsc,
             gain_smooth_coeff = gsc,
             slope = (if ratio s > 1 then 1 - 1 / ratio s else 0) \<rparr>))))"

definition UnknownCompressor_process_block ::
  "UnknownCompressor \<Rightarrow> real list \<Rightarrow> real list \<Rightarrow>
     py_error + (real list \<times> real list \<times> UnknownCompressor)" where
  "UnknownCompressor_process_block s left_channel right_channel =
     and_then (derive_coeffs s) (\<lambda>k. compressor_loop k s left_channel right_channel)"

text \<open>
  The peak state after \<open>n\<close> further samples of one constant stereo input: the detector
  of the loop, run \<open>n\<close> times (the gain stages do not write the detector state).
\<close>

primrec peak_after :: "block_coeffs \<Rightarrow> UnknownCompressor \<Rightarrow> real \<Rightarrow> real \<Rightarrow> nat \<Rightarrow> real" where
  "peak_after k s samp_l samp_r 0 = peak_state s"
| "peak_after k s samp_l samp_r (Suc n) =
     peak_after k (snd (detector k s samp_l samp_r)) samp_l samp_r n"

section \<open>UnknownFilter: the zero-delay-feedback filter\<close>

subsection \<open>The filter of the composite (test.py)\<close>

type_synonym coeffs5 = "real \<times> real \<times> real \<times> real \<times> real"
type_synonym state4 = "real \<times> real \<times> real \<times> real"

record UnknownFilter =
  state :: state4
  C :: coeffs5

definition UnknownFilter_init :: UnknownFilter where
  "UnknownFilter_init = \<lparr> state = (0, 0, 0, 0), C = (1, 0, 0, 0, 0) \<rparr>"


text \<open>The guarded reciprocal: \<^verbatim>\<open>inv = 1.0 / denom if abs(denom) > 1e-20 else 0.0\<close>.\<close>

definition guarded_inv :: "real \<Rightarrow> py_error + real" where
  "guarded_inv denom = (if \<bar>denom\<bar> > 1 / 10 ^ 20 then py_div 1 denom else Inr 0)"

text \<open>The denominator of the per-sample solve, \<^verbatim>\<open>mix * c0 + 1.0\<close>.\<close>

definition solve_denom :: "real \<Rightarrow> real \<Rightarrow> real" where
  "solve_denom c0 c1 = (c1 * 2 + c0) * c0 + 1"

fun filter_loop ::
  "coeffs5 \<Rightarrow> state4 \<Rightarrow> real list \<Rightarrow> real list \<Rightarrow>
     py_error + (real list \<times> real list \<times> state4 \<times> coeffs5)" where
  "filter_loop cs st [] right_samples = Inr ([], [], st, cs)"
| "filter_loop (c0, c1, c2, c3, c4) (s0, s1, s2, s3) (inp_l # ls) right_samples =
     (let two_c0 = c0 * 2;
          two_c1 = c1 * 2;
          mix = two_c1 + c0
      in and_then (guarded_inv (solve_denom c0 c1)) (\<lambda>inv.
           case right_samples of
             [] \<Rightarrow> Inl IndexError
           | inp_r # rs \<Rightarrow>
               (let acc_l = inp_l * c0 + s0;
                    acc_r = inp_r * c0 + s1;
                    hp_l = inp_l - (mix * acc_l + s2) * inv;
                    hp_r = inp_r - (mix * acc_r + s3) * inv;
                    s2_temp = (acc_l - s2 * c0) * inv * c0 + s2;
                    s3_temp = (acc_r - s3 * c0) * inv * c0 + s3;
                    bp_l = hp_l * c0 + s0;
                    bp_r = hp_r * c0 + s1;
                    out_l = c3 * bp_l + c4 * s2_temp + c2 * hp_l;
                    out_r = c3 * bp_r + c4 * s3_temp + c2 * hp_r;
                    s0' = ((inp_l - two_c1 * bp_l) - s2_temp) * two_c0 + s0;
                    s1' = ((inp_r - two_c1 * bp_r) - s3_temp) * two_c0 + s1;
                    s2' = bp_l * two_c0 + s2;
                    s3' = bp_r * two_c0 + s3
                in and_then
                     (filter_loop (c0 + 0, c1 + 0, c2 + 0, c3 + 0, c4 + 0) (s0', s1', s2', s3') ls rs)
                     (\<lambda>(outs_l, outs_r, st', cs').
                        Inr (out_l # outs_l, out_r # outs_r, st', cs')))))"

definition UnknownFilter_process ::
  "UnknownFilter \<Rightarrow> real list \<Rightarrow> real list \<Rightarrow>
     py_error + (real list \<times> real list \<times> UnknownFilter)" where
  "UnknownFilter_process f left_samples right_samples =
     and_then (filter_loop (C f) (state f) left_samples right_samples)
       (\<lambda>(output_l, output_r, st', cs'). Inr (output_l, output_r, f\<lparr> state := st', C := cs' \<rparr>))"

subsection \<open>The stand-alone filter (filter.py)\<close>

text \<open>
  filter.py holds an older copy of the class: its constructor derives the coefficients
  from five fixed design parameters, and its \<^verbatim>\<open>process\<close> computes the reciprocal once
  per call, without a guard.
\<close>

definition filter_py_P :: coeffs5 where
  "filter_py_P =
     (21702805830713853 / 10 ^ 17, 7929947002337122 / 10 ^ 16, 9999999999999999 / 10 ^ 16, 0, 0)"

definition complex_root :: "real \<Rightarrow> real \<times> real" where
  "complex_root v = (if v \<le> 0 then (0, sqrt (- v)) else (sqrt v, 0))"

definition calculate_coefficients :: "coeffs5 \<Rightarrow> py_error + coeffs5" where
  "calculate_coefficients P =
     (case P of (P0, P1, P2, P3, P4) \<Rightarrow>
      case complex_root ((- 1 - P3) - P4) of (root1_re, root1_im) \<Rightarrow>
      case complex_root ((P3 - 1) - P4) of (root2_re, root2_im) \<Rightarrow>
        and_then
          (if \<bar>root2_re\<bar> \<le> \<bar>root2_im\<bar> then
             and_then (py_div root2_im root2_im) (\<lambda>q.
               py_div (root1_im * q + root1_re) (root2_im * q + root2_re))
           else
             and_then (py_div root2_re root2_im) (\<lambda>q.
               py_div (root1_im + root1_re * q) (root2_re * q + root2_im)))
          (\<lambda>dVar9.
             and_then (py_div 1 (root1_re * root2_re - root2_im * root1_im)) (\<lambda>inv_den.
             and_then (py_div ((P0 - P1) + P2) ((1 - P3) + P4)) (\<lambda>C2.
             and_then (py_div (P0 + P1 + P2) (P3 + 1 + P4)) (\<lambda>C4.
               Inr (dVar9, (P4 - 1) * inv_den, C2, (P0 - P2) * (- 2) * inv_den, C4))))))"

record UnknownFilter_py =
  py_P :: coeffs5
  py_C :: coeffs5
  py_state :: state4

definition UnknownFilter_py_init :: "py_error + UnknownFilter_py" where
  "UnknownFilter_py_init =
     and_then (calculate_coefficients filter_py_P)
       (\<lambda>cs. Inr \<lparr> py_P = filter_py_P, py_C = cs, py_state = (0, 0, 0, 0) \<rparr>)"



section \<open>FreshAirClone (test.py): the composite\<close>

definition lerp :: "real \<Rightarrow> real \<Rightarrow> real \<Rightarrow> real" where
  "lerp a b t = a + t * (b - a)"

text \<open>
  A curve table is a Python dict with float keys: an association list with distinct keys.
  \<^verbatim>\<open>interpolate_curve\<close> sorts the keys and reads the values back by key.
\<close>

fun interpolate_loop :: "real \<Rightarrow> (real \<times> real) list \<Rightarrow> py_error + real" where
  "interpolate_loop knob_val ((k1, v1) # (k2, v2) # rest) =
     (if k1 \<le> knob_val \<and> knob_val \<le> k2 then
        and_then (py_div (knob_val - k1) (k2 - k1)) (\<lambda>t. Inr (lerp v1 v2 t))
      else interpolate_loop knob_val ((k2, v2) # rest))"
| "interpolate_loop knob_val points = Inr 0"

definition interpolate_curve :: "real \<Rightarrow> (real \<times> real) list \<Rightarrow> py_error + real" where
  "interpolate_curve knob_val points =
     (case sort_key fst points of
        [] \<Rightarrow> Inl IndexError
      | first # rest \<Rightarrow>
          if knob_val \<le> fst first then Inr (snd first)
          else if knob_val \<ge> fst (last (first # rest)) then Inr (snd (last (first # rest)))
          else interpolate_loop knob_val (first # rest))"

text \<open>The tables, decoded from the hexadecimal literals of the source to exact values.\<close>

definition MID_FILTER_COEFFS :: coeffs5 where
  "MID_FILTER_COEFFS =
     (7819259860167771 / 2 ^ 55, 7142661272958649 / 2 ^ 53, 9007199254740991 / 2 ^ 53, 0, 0)"

definition HIGH_FILTER_COEFFS :: coeffs5 where
  "HIGH_FILTER_COEFFS =
     (6722244583606709 / 2 ^ 53, 398125841409297 / 2 ^ 49, 1, 0, 0)"

definition MID_GAIN_CURVE :: "(real \<times> real) list" where
  "MID_GAIN_CURVE =
     [(0, 1485145194824359 / 2 ^ 51), (0.25, 4653993267281851 / 2 ^ 52),
      (0.5, 2961427729020933 / 2 ^ 51), (0.75, 3607173915693685 / 2 ^ 51),
      (1, 2144814593956859 / 2 ^ 50)]"

definition HIGH_LIMITER_THRESH_CURVE :: "(real \<times> real) list" where
  "HIGH_LIMITER_THRESH_CURVE =
     [(0, 8405405 / 2 ^ 24), (0.25, 9796655 / 2 ^ 25), (0.5, 7331193 / 2 ^ 25),
      (0.75, 5783157 / 2 ^ 25), (1, 9390903 / 2 ^ 26)]"

definition HIGH_LIMITER_SHAPE_CURVE :: "(real \<times> real) list" where
  "HIGH_LIMITER_SHAPE_CURVE =
     [(0, 12399377 / 2 ^ 24), (0.25, 10688751 / 2 ^ 24), (0.5, 4885179 / 2 ^ 23),
      (0.75, 563685 / 2 ^ 20), (1, 8358903 / 2 ^ 24)]"

record FreshAirClone =
  clone_sample_rate :: real
  mid_filter :: UnknownFilter
  mid_compressor :: UnknownCompressor
  high_filter :: UnknownFilter
  high_gate :: UnknownCompressor
  high_gain :: StereoGainMeter
  high_limiter :: UnknownCompressor
  trim_gain :: StereoGainMeter
  static_pad :: StereoGainMeter
  knob_mid :: real
  knob_high :: real
  knob_trim :: real

definition FreshAirClone_init :: "real \<Rightarrow> FreshAirClone" where
  "FreshAirClone_init rate =
     \<lparr> clone_sample_rate = rate,
       mid_filter = UnknownFilter_init\<lparr> C := MID_FILTER_COEFFS \<rparr>,
       mid_compressor = (UnknownCompressor_init rate)\<lparr> threshold := 0.0316, mode := 0, ratio := 2 \<rparr>,
       high_filter = UnknownFilter_init\<lparr> C := HIGH_FILTER_COEFFS \<rparr>,
       high_gate = (UnknownCompressor_init rate)\<lparr> threshold := 0 \<rparr>,
       high_gain = StereoGainMeter_init 0.1 0.1,
       high_limiter = (UnknownCompressor_init rate)\<lparr> mode := 2 \<rparr>,
       trim_gain = StereoGainMeter_init 0.1 0.1,
       static_pad = StereoGainMeter_init 0.1 0.1,
       knob_mid = 0, knob_high = 0, knob_trim = 0 \<rparr>"

definition FreshAirClone_set_parameters ::
  "FreshAirClone \<Rightarrow> real \<Rightarrow> real \<Rightarrow> real \<Rightarrow> py_error + FreshAirClone" where
  "FreshAirClone_set_parameters s mid_air high_air trim_db =
     and_then (interpolate_curve high_air HIGH_LIMITER_SHAPE_CURVE) (\<lambda>sl.
     and_then (if sl < 1 then py_div 1 (1 - sl) else Inr 20) (\<lambda>rat.
     and_then (interpolate_curve high_air HIGH_LIMITER_THRESH_CURVE) (\<lambda>thr.
       Inr (s\<lparr> knob_mid := mid_air, knob_high := high_air, knob_trim := trim_db,
               high_limiter := (high_limiter s)\<lparr> threshold := thr, ratio := rat \<rparr> \<rparr>))))"

text \<open>The summing loop: dry + mid + high, read by index up to the left input's length.\<close>

definition sum_lanes :: "nat \<Rightarrow> real list \<Rightarrow> real list \<Rightarrow> real list \<Rightarrow> py_error + real list" where
  "sum_lanes block_len dry mid high =
     (if block_len \<le> length dry \<and> block_len \<le> length mid \<and> block_len \<le> length high
      then Inr (map (\<lambda>i. dry ! i + mid ! i + high ! i) [0..<block_len])
      else Inl IndexError)"

text \<open>
  \<^verbatim>\<open>process\<close> runs three labelled sections in order: lane 0 (mid air), lane 1 (high air),
  and the summing and output section. Each lane is a definition of its own here; a lane
  returns its two output lists and the updated components.
\<close>

definition mid_lane ::
  "FreshAirClone \<Rightarrow> real list \<Rightarrow> real list \<Rightarrow>
     py_error + (real list \<times> real list \<times> UnknownFilter \<times> UnknownCompressor)" where
  "mid_lane s left_in right_in =
     and_then (UnknownFilter_process (mid_filter s) left_in right_in) (\<lambda>(mid_l, mid_r, mf).
     and_then (interpolate_curve (knob_mid s) MID_GAIN_CURVE) (\<lambda>mid_drive_raw.
     and_then (UnknownCompressor_process_block (mid_compressor s)
                 (map (\<lambda>x. x * (mid_drive_raw - 0.05)) mid_l)
                 (map (\<lambda>x. x * (mid_drive_raw - 0.05)) mid_r)) (\<lambda>(mid_l, mid_r, mc).
       Inr (mid_l, mid_r, mf, mc))))"

definition high_lane ::
  "FreshAirClone \<Rightarrow> real list \<Rightarrow> real list \<Rightarrow>
     py_error + (real list \<times> real list \<times> UnknownFilter \<times> UnknownCompressor \<times>
                 StereoGainMeter \<times> UnknownCompressor)" where
  "high_lane s left_in right_in =
     and_then (UnknownFilter_process (high_filter s) left_in right_in) (\<lambda>(high_l, high_r, hf).
     and_then (UnknownCompressor_process_block (high_gate s) high_l high_r) (\<lambda>(high_l, high_r, hg).
     and_then (py_pow (knob_high s) 0.8) (\<lambda>p.
     and_then (StereoGainMeter_process_block (high_gain s) high_l high_r 0 (1 + 0.8962 * p) 0)
       (\<lambda>(high_l, high_r, hb).
     and_then (UnknownCompressor_process_block (high_limiter s) high_l high_r) (\<lambda>(high_l, high_r, hl).
       Inr (high_l, high_r, hf, hg, hb, hl))))))"

definition FreshAirClone_process ::
  "FreshAirClone \<Rightarrow> real list \<Rightarrow> real list \<Rightarrow>
     py_error + (real list \<times> real list \<times> FreshAirClone)" where
  "FreshAirClone_process s left_in right_in =
     and_then (mid_lane s left_in right_in) (\<lambda>(mid_l, mid_r, mf, mc).
     and_then (high_lane s left_in right_in) (\<lambda>(high_l, high_r, hf, hg, hb, hl).
     and_then (sum_lanes (length left_in) left_in mid_l high_l) (\<lambda>out_l.
     and_then (sum_lanes (length left_in) right_in mid_r high_r) (\<lambda>out_r.
     and_then (py_pow 10 (knob_trim s / 20)) (\<lambda>trim_lin.
     and_then (StereoGainMeter_process_block (trim_gain s) out_l out_r 0 trim_lin 0)
       (\<lambda>(out_l, out_r, tg).
     and_then (StereoGainMeter_process_block (static_pad s) out_l out_r 0 0.822 0)
       (\<lambda>(out_l, out_r, sp).
       Inr (out_l, out_r,
            s\<lparr> mid_filter := mf, mid_compressor := mc, high_filter := hf, high_gate := hg,
               high_gain := hb, high_limiter := hl, trim_gain := tg, static_pad := sp \<rparr>
           ))))))))"

section \<open>Conditions on states and blocks\<close>

text \<open>
  A gain stage accepts a block of \<open>n\<close> samples for a target when its ramp set-up does not
  divide by zero: the block is not empty, or the stage has not run yet, or the target is
  the stored one up to \<^verbatim>\<open>1e-15\<close>.
\<close>

definition stage_accepts :: "StereoGainMeter \<Rightarrow> real \<Rightarrow> nat \<Rightarrow> bool" where
  "stage_accepts g target n \<longleftrightarrow>
     n \<noteq> 0 \<or> \<not> initialized g \<or> \<bar>target - stored_target_gain g\<bar> < 1 / 10 ^ 15"

text \<open>
  The composite accepts a block of \<open>n\<close> samples when its two knob-driven gain stages do:
  the boost of the high lane and the output trim.
\<close>

definition accepts_block :: "FreshAirClone \<Rightarrow> nat \<Rightarrow> bool" where
  "accepts_block s n \<longleftrightarrow>
     stage_accepts (high_gain s) (1 + 0.8962 * knob_high s powr 0.8) n \<and>
     stage_accepts (trim_gain s) (10 powr (knob_trim s / 20)) n"

text \<open>
  The configuration contract of the composite: positive sample rates, thresholds that
  are not negative, a high-air knob that is a non-negative float, a trim whose linear
  gain \<open>10 ^ (trim / 20)\<close> is within the float range (a trim of at most about 6165 dB),
  and a pad stage that, once it has run, stores the pad gain. The constructor with a positive sample rate establishes
  it; \<^verbatim>\<open>process\<close> keeps it, and so does \<^verbatim>\<open>set_parameters\<close> for a high-air knob and
  a trim in range.
\<close>

definition well_configured :: "FreshAirClone \<Rightarrow> bool" where
  "well_configured s \<longleftrightarrow>
     0 < sample_rate (mid_compressor s) \<and> 0 < sample_rate (high_gate s) \<and>
     0 < sample_rate (high_limiter s) \<and>
     0 \<le> threshold (mid_compressor s) \<and> 0 \<le> threshold (high_gate s) \<and>
     0 \<le> threshold (high_limiter s) \<and>
     0 \<le> knob_high s \<and> knob_high s \<le> DBL_MAX \<and>
     10 powr (knob_trim s / 20) \<le> DBL_MAX \<and>
     (initialized (static_pad s) \<longrightarrow> stored_target_gain (static_pad s) = 0.822)"

section \<open>Concrete states used as examples\<close>

text \<open>
  A stage after its first call (target 1/2, one sample) and after a second call that
  ramps to target 1 over four samples.
\<close>

definition stage_first :: StereoGainMeter where
  "stage_first =
     \<lparr> initialized = True, stored_target_gain = 1 / 2, start_gain = 1 / 2, current_gain = 1 / 2,
       ramp_step = 0, meter_coeff_l = 0.1, meter_coeff_r = 0.1,
       meter_state_l = 0, meter_state_r = 0 \<rparr>"

definition stage_after_ramp :: StereoGainMeter where
  "stage_after_ramp =
     \<lparr> initialized = True, stored_target_gain = 1, start_gain = 1 / 2, current_gain = 1,
       ramp_step = 1 / 4, meter_coeff_l = 0.1, meter_coeff_r = 0.1,
       meter_state_l = 0, meter_state_r = 0 \<rparr>"

text \<open>
  The composite after a first call of \<^verbatim>\<open>process\<close> on the empty block, and after
  \<^verbatim>\<open>set_parameters(0, 0, 20)\<close> on that state.
\<close>

definition snapped :: "real \<Rightarrow> StereoGainMeter" where
  "snapped g =
     \<lparr> initialized = True, stored_target_gain = g, start_gain = g, current_gain = g,
       ramp_step = 0, meter_coeff_l = 0.1, meter_coeff_r = 0.1,
       meter_state_l = 0, meter_state_r = 0 \<rparr>"

definition clone_first :: FreshAirClone where
  "clone_first =
     (FreshAirClone_init 44100)
       \<lparr> high_gain := snapped 1, trim_gain := snapped 1, static_pad := snapped 0.822 \<rparr>"

definition clone_updated :: FreshAirClone where
  "clone_updated =
     clone_first
       \<lparr> knob_trim := 20,
         high_limiter := (high_limiter clone_first)
           \<lparr> threshold := 8405405 / 2 ^ 24, ratio := 1 / (1 - 12399377 / 2 ^ 24) \<rparr> \<rparr>"

text \<open>The fresh composite after \<^verbatim>\<open>set_parameters(0, 0, 10000)\<close>.\<close>

definition clone_loud :: FreshAirClone where
  "clone_loud =
     (FreshAirClone_init 44100)
       \<lparr> knob_trim := 10000,
         high_limiter := (high_limiter (FreshAirClone_init 44100))
           \<lparr> threshold := 8405405 / 2 ^ 24, ratio := 1 / (1 - 12399377 / 2 ^ 24) \<rparr> \<rparr>"

section \<open>The float range\<close>

lemma DBL_MAX_bounds: "2 ^ 1023 \<le> DBL_MAX" "DBL_MAX < 2 ^ 1024"
proof -
  have p: "(0 :: real) < 2 ^ 1023" by (rule zero_less_power) simp
  have "1 * (2 :: real) ^ 1023 \<le> (2 - 1 / 2 ^ 52) * 2 ^ 1023"
    by (rule mult_right_mono[OF _ less_imp_le[OF p]]) (simp del: power_numeral)
  then show "2 ^ 1023 \<le> DBL_MAX" by (simp only: DBL_MAX_def mult_1)
  have "(2 - 1 / 2 ^ 52) * (2 :: real) ^ 1023 < 2 * 2 ^ 1023"
    by (rule mult_strict_right_mono[OF _ p]) (simp del: power_numeral)
  also have "2 * (2 :: real) ^ 1023 = 2 ^ Suc 1023" by (simp only: power_Suc)
  also have "Suc 1023 = 1024" by simp
  finally show "DBL_MAX < 2 ^ 1024" by (simp only: DBL_MAX_def)
qed

lemma DBL_MAX_ge_ten: "10 \<le> DBL_MAX"
proof -
  have "(10 :: real) \<le> 2 ^ 4" by simp
  also have "(2 :: real) ^ 4 \<le> 2 ^ 1023" by (rule power_increasing) simp_all
  also note DBL_MAX_bounds(1)
  finally show ?thesis .
qed

lemma DBL_MAX_ge_one: "1 \<le> DBL_MAX"
  using DBL_MAX_ge_ten by linarith

lemma DBL_MAX_less: "DBL_MAX < 10 powr 500"
proof -
  note DBL_MAX_bounds(2)
  also have "(2 :: real) ^ 1024 = (2 ^ 8) ^ 128" by (simp only: power_mult[symmetric]) simp
  also have "\<dots> \<le> (10 ^ 3) ^ 128" by (rule power_mono) simp_all
  also have "\<dots> = (10 :: real) ^ (3 * 128)" by (simp only: power_mult)
  also have "\<dots> \<le> 10 ^ 500" by (rule power_increasing) simp_all
  also have "\<dots> = 10 powr 500"
    using powr_realpow[of "10 :: real" 500] by (simp del: power_numeral powr_numeral)
  finally show ?thesis .
qed

lemma range_checked_le: "\<bar>r\<bar> \<le> DBL_MAX \<Longrightarrow> range_checked r = Inr r"
  by (simp add: range_checked_def)

lemma range_checked_unit: "\<bar>r\<bar> \<le> 1 \<Longrightarrow> range_checked r = Inr r"
  using DBL_MAX_ge_one by (intro range_checked_le) linarith

lemma py_exp_nonpos: "x \<le> 0 \<Longrightarrow> py_exp x = Inr (exp x)"
  unfolding py_exp_def by (intro range_checked_unit) simp

lemma py_pow_unit:
  assumes "0 \<le> x" "x \<le> 1" "0 \<le> y"
  shows "\<exists>r. py_pow x y = Inr r \<and> 0 \<le> r \<and> r \<le> 1"
proof -
  have "x powr y \<le> 1" using assms by (intro powr_le1) simp_all
  moreover have "0 \<le> x powr y" by simp
  ultimately have "range_checked (x powr y) = Inr (x powr y)"
    by (intro range_checked_unit) simp
  then show ?thesis using assms \<open>x powr y \<le> 1\<close> by (auto simp: py_pow_def)
qed

lemma py_pow_knob:
  assumes "0 \<le> x" "x \<le> DBL_MAX"
  shows "py_pow x 0.8 = Inr (x powr 0.8)"
proof (cases "x = 0")
  case True
  then show ?thesis by (simp add: py_pow_def)
next
  case False
  have "x powr 0.8 \<le> DBL_MAX"
  proof (cases "x \<le> 1")
    case True
    then have "x powr 0.8 \<le> 1" using assms(1) by (intro powr_le1) simp_all
    then show ?thesis using DBL_MAX_ge_one by linarith
  next
    case False
    then have "x powr 0.8 \<le> x powr 1" by (intro powr_mono) simp_all
    then show ?thesis using assms by simp
  qed
  then have "range_checked (x powr 0.8) = Inr (x powr 0.8)"
    by (intro range_checked_le) simp
  then show ?thesis using assms(1) False by (simp add: py_pow_def)
qed

lemma py_pow_ten:
  "10 powr y \<le> DBL_MAX \<Longrightarrow> py_pow 10 y = Inr (10 powr y)"
  by (simp add: py_pow_def range_checked_def)

lemma py_pow_ten_overflow:
  "py_pow 10 500 = Inl OverflowError"
proof -
  have "\<bar>10 powr 500 :: real\<bar> = 10 powr 500" by (rule abs_of_nonneg) (rule powr_ge_zero)
  then have "\<bar>10 powr 500 :: real\<bar> > DBL_MAX" using DBL_MAX_less by (simp only:)
  then have r: "range_checked (10 powr 500) = Inl OverflowError"
    by (simp only: range_checked_def if_True)
  have c: "(500 :: real) = 0 \<longleftrightarrow> False" "(10 :: real) = 0 \<longleftrightarrow> False"
    "(10 :: real) < 0 \<longleftrightarrow> False" by simp_all
  have "py_pow 10 500 = range_checked (10 powr 500)"
    by (simp only: py_pow_def c if_False)
  with r show ?thesis by (simp only:)
qed

section \<open>Properties of the ramped gain stage\<close>

lemma calculated_gain_cong:
  "ramp_step s' = ramp_step s \<Longrightarrow> start_gain s' = start_gain s \<Longrightarrow>
   calculated_gain s' tg c = calculated_gain s tg c"
  by (simp add: calculated_gain_def Let_def)

lemma gain_loop_frame:
  "gain_loop tg c s ls rs = Inr (ol, orr, s') \<Longrightarrow>
   ramp_step s' = ramp_step s \<and> start_gain s' = start_gain s \<and>
   initialized s' = initialized s \<and> stored_target_gain s' = stored_target_gain s \<and>
   meter_coeff_l s' = meter_coeff_l s \<and> meter_coeff_r s' = meter_coeff_r s"
proof (induction tg c s ls rs arbitrary: ol orr s' rule: gain_loop.induct)
  case (1 tg c s rs)
  then show ?case by simp
next
  case (2 tg c s x ls)
  then show ?case by simp
next
  case (3 tg c s x ls y rs)
  from "3.prems" show ?case
    by (auto simp: Let_def split: sum.splits prod.splits elim!: and_then.elims dest!: "3.IH"[OF refl refl refl refl refl refl])
qed


lemma gain_loop_total:
  "length ls \<le> length rs \<Longrightarrow> \<exists>ol orr s'. gain_loop tg c s ls rs = Inr (ol, orr, s')"
proof (induction tg c s ls rs rule: gain_loop.induct)
  case (3 tg c s x ls y rs)
  then show ?case by (fastforce simp: Let_def)
qed simp_all

lemma gain_loop_outputs:
  "gain_loop tg c s ls rs = Inr (ol, orr, s') \<Longrightarrow>
   length ls \<le> length rs \<and>
   ol = map (\<lambda>i. ls ! i * calculated_gain s tg (c + real (Suc i))) [0..<length ls] \<and>
   orr = map (\<lambda>i. rs ! i * calculated_gain s tg (c + real (Suc i))) [0..<length ls]
           @ drop (length ls) rs \<and>
   current_gain s' =
     (if ls = [] then current_gain s else calculated_gain s tg (c + real (length ls)))"
proof (induction tg c s ls rs arbitrary: ol orr s' rule: gain_loop.induct)
  case (1 tg c s rs)
  then show ?case by simp
next
  case (2 tg c s x ls)
  then show ?case by simp
next
  case (3 tg c s x ls y rs)
  let ?g = "calculated_gain s tg (c + 1)"
  let ?s1 = "s\<lparr> current_gain := ?g,
                 meter_state_l := (x * ?g * (x * ?g) - meter_state_l s) * meter_coeff_l s + meter_state_l s,
                 meter_state_r := (y * ?g * (y * ?g) - meter_state_r s) * meter_coeff_r s + meter_state_r s \<rparr>"
  from "3.prems" obtain ol' orr' where
    rec: "gain_loop tg (c + 1) ?s1 ls rs = Inr (ol', orr', s')"
    and ol: "ol = x * ?g # ol'" and orr: "orr = y * ?g # orr'"
    by (auto simp: Let_def split: sum.splits prod.splits elim!: and_then.elims)
  have cg: "\<And>d. calculated_gain ?s1 tg d = calculated_gain s tg d"
    by (rule calculated_gain_cong) simp_all
  from "3.IH"[OF refl refl refl refl refl refl rec]
  have ih: "length ls \<le> length rs"
    "ol' = map (\<lambda>i. ls ! i * calculated_gain s tg (c + 1 + real (Suc i))) [0..<length ls]"
    "orr' = map (\<lambda>i. rs ! i * calculated_gain s tg (c + 1 + real (Suc i))) [0..<length ls]
           @ drop (length ls) rs"
    "current_gain s' =
     (if ls = [] then ?g else calculated_gain s tg (c + 1 + real (length ls)))"
    by (simp_all add: cg)
  have shift: "\<And>f. map f [0..<Suc (length ls)] = f 0 # map (\<lambda>i. f (Suc i)) [0..<length ls]"
    by (simp add: upt_conv_Cons map_Suc_upt[symmetric] del: upt_Suc)
  show ?case
    using ih ol orr
    by (simp add: shift add.assoc add.commute add.left_commute del: upt_Suc)
qed


lemma map_index_take:
  "n \<le> length rs \<Longrightarrow> map (\<lambda>i. f (rs ! i)) [0..<n] = map f (take n rs)"
  by (simp add: list_eq_iff_nth_eq)

lemma gain_loop_result:
  assumes "length ls \<le> length rs"
  shows "\<exists>s'. gain_loop tg c s ls rs =
           Inr (map (\<lambda>i. ls ! i * calculated_gain s tg (c + real (Suc i))) [0..<length ls],
                map (\<lambda>i. rs ! i * calculated_gain s tg (c + real (Suc i))) [0..<length ls]
                  @ drop (length ls) rs, s') \<and>
           current_gain s' =
             (if ls = [] then current_gain s else calculated_gain s tg (c + real (length ls))) \<and>
           ramp_step s' = ramp_step s \<and> start_gain s' = start_gain s \<and>
           initialized s' = initialized s \<and> stored_target_gain s' = stored_target_gain s"
proof -
  from gain_loop_total[OF assms] obtain ol orr s' where
    r: "gain_loop tg c s ls rs = Inr (ol, orr, s')" by blast
  from gain_loop_outputs[OF r] gain_loop_frame[OF r] r show ?thesis by simp
qed

lemma setup_ramp_unchanged:
  "initialized s \<Longrightarrow> \<bar>tg - stored_target_gain s\<bar> < 1 / 10 ^ 15 \<Longrightarrow>
   setup_ramp s tg n = Inr (s\<lparr> ramp_step := 0, start_gain := tg, stored_target_gain := tg \<rparr>)"
  by (simp add: setup_ramp_def Let_def)

lemma setup_ramp_changed:
  "initialized s \<Longrightarrow> \<bar>tg - stored_target_gain s\<bar> \<ge> 1 / 10 ^ 15 \<Longrightarrow>
   setup_ramp s tg n =
     (if n = 0 then Inl ZeroDivisionError
      else Inr (s\<lparr> ramp_step := 1 / real n, start_gain := stored_target_gain s,
                  stored_target_gain := tg \<rparr>))"
  by (simp add: setup_ramp_def Let_def py_div_def)

lemma setup_ramp_first:
  "\<not> initialized s \<Longrightarrow>
   setup_ramp s tg n =
     Inr (s\<lparr> initialized := True, start_gain := tg, stored_target_gain := tg,
             ramp_step := 0, current_gain := tg \<rparr>)"
  by (simp add: setup_ramp_def)

lemma process_block_unchanged:
  assumes "initialized s"
    and "\<bar>target_of m vn vb - stored_target_gain s\<bar> < 1 / 10 ^ 15"
    and "length ls \<le> length rs"
  shows "\<exists>s'. StereoGainMeter_process_block s ls rs m vn vb =
           Inr (map (\<lambda>x. x * target_of m vn vb) ls,
                map (\<lambda>x. x * target_of m vn vb) (take (length ls) rs) @ drop (length ls) rs,
                s') \<and>
           ramp_step s' = 0 \<and> stored_target_gain s' = target_of m vn vb \<and> initialized s'"
proof -
  let ?tg = "target_of m vn vb"
  let ?s1 = "s\<lparr> ramp_step := 0, start_gain := ?tg, stored_target_gain := ?tg \<rparr>"
  have cg: "\<And>d. calculated_gain ?s1 ?tg d = ?tg"
    by (simp add: calculated_gain_def)
  from gain_loop_result[OF assms(3), of ?tg 0 ?s1]
  obtain s' where
    r: "gain_loop ?tg 0 ?s1 ls rs =
          Inr (map (\<lambda>i. ls ! i * ?tg) [0..<length ls],
               map (\<lambda>i. rs ! i * ?tg) [0..<length ls] @ drop (length ls) rs, s')"
    and fr: "ramp_step s' = 0" "stored_target_gain s' = ?tg" "initialized s'"
    using assms(1) by (auto simp: cg)
  have l: "map (\<lambda>i. ls ! i * ?tg) [0..<length ls] = map (\<lambda>x. x * ?tg) ls"
    using map_index_take[of "length ls" ls "\<lambda>x. x * ?tg"] by simp
  have rr: "map (\<lambda>i. rs ! i * ?tg) [0..<length ls] = map (\<lambda>x. x * ?tg) (take (length ls) rs)"
    using map_index_take[OF assms(3), of "\<lambda>x. x * ?tg"] by simp
  show ?thesis
    using r fr setup_ramp_unchanged[OF assms(1,2)]
    by (simp add: StereoGainMeter_process_block_def Let_def l rr)
qed


lemma process_block_ramp:
  assumes "initialized s" and "ls \<noteq> []" and "length ls \<le> length rs"
    and "\<bar>target_of m vn vb - stored_target_gain s\<bar> \<ge> 1 / 10 ^ 15"
  shows "\<exists>ol orr s1. StereoGainMeter_process_block s ls rs m vn vb = Inr (ol, orr, s1) \<and>
           current_gain s1 = target_of m vn vb \<and> initialized s1 \<and>
           stored_target_gain s1 = target_of m vn vb"
proof -
  let ?tg = "target_of m vn vb"
  let ?n = "length ls"
  let ?s1 = "s\<lparr> ramp_step := 1 / real ?n, start_gain := stored_target_gain s,
                stored_target_gain := ?tg \<rparr>"
  have n: "real ?n > 0" using assms(2) by simp
  have su: "setup_ramp s ?tg ?n = Inr ?s1"
    using setup_ramp_changed[OF assms(1,4), of ?n] assms(2) by simp
  have last: "calculated_gain ?s1 ?tg (0 + real ?n) = ?tg"
    using n by (simp add: calculated_gain_def Let_def)
  from gain_loop_result[OF assms(3), of ?tg 0 ?s1]
  obtain ol orr s' where
    r: "gain_loop ?tg 0 ?s1 ls rs = Inr (ol, orr, s')"
    and cur: "current_gain s' = calculated_gain ?s1 ?tg (0 + real ?n)"
    and fr: "initialized s' = initialized ?s1" "stored_target_gain s' = stored_target_gain ?s1"
    using assms(2) by auto
  show ?thesis
    using r cur fr last su assms(1)
    by (simp add: StereoGainMeter_process_block_def Let_def)
qed

text \<open>
  Claim C3 (ramp completeness). An initialised stage is called with a block of
  \<open>N \<ge> 1\<close> samples and a target \<open>G1\<close> that differs from the stored target \<open>G0\<close> by
  at least \<^verbatim>\<open>1e-15\<close>. The call returns and leaves \<open>current_gain\<close> equal to \<open>G1\<close>
  (in exact arithmetic the last interpolation factor \<open>N * (1 / N)\<close> is 1, so the
  tolerance of the claim is met with equality), and in every following call with the
  same target the first sample of each channel is scaled by exactly \<open>G1\<close>.
\<close>

theorem ramp_completeness:
  assumes "initialized s" and "ls \<noteq> []" and "length ls \<le> length rs"
    and "\<bar>target_of m vn vb - stored_target_gain s\<bar> \<ge> 1 / 10 ^ 15"
  shows "\<exists>ol orr s1. StereoGainMeter_process_block s ls rs m vn vb = Inr (ol, orr, s1) \<and>
           current_gain s1 = target_of m vn vb \<and>
           (\<forall>x xs y ys. length xs \<le> length ys \<longrightarrow>
              (\<exists>ol2 or2 s2. StereoGainMeter_process_block s1 (x # xs) (y # ys) m vn vb =
                 Inr (x * target_of m vn vb # ol2, y * target_of m vn vb # or2, s2)))"
proof -
  from process_block_ramp[OF assms] obtain ol orr s1 where
    r: "StereoGainMeter_process_block s ls rs m vn vb = Inr (ol, orr, s1)"
    and c: "current_gain s1 = target_of m vn vb"
    and i: "initialized s1" and st: "stored_target_gain s1 = target_of m vn vb"
    by blast
  have "\<exists>ol2 or2 s2. StereoGainMeter_process_block s1 (x # xs) (y # ys) m vn vb =
                 Inr (x * target_of m vn vb # ol2, y * target_of m vn vb # or2, s2)"
    if "length xs \<le> length ys" for x xs y ys
  proof -
    have "\<bar>target_of m vn vb - stored_target_gain s1\<bar> < 1 / 10 ^ 15" by (simp add: st)
    from process_block_unchanged[OF i this, of "x # xs" "y # ys"] that
    show ?thesis by auto
  qed
  with r c show ?thesis by blast
qed

theorem ramp_completeness_witness:
  "initialized \<lparr> initialized = True, stored_target_gain = 1, start_gain = 1, current_gain = 1,
       ramp_step = 0, meter_coeff_l = 0.1, meter_coeff_r = 0.1,
       meter_state_l = 0, meter_state_r = 0 \<rparr> \<and> [1, 1 :: real] \<noteq> [] \<and>
   length [1, 1 :: real] \<le> length [1, 1 :: real] \<and>
   \<bar>target_of 0 3 0 - 1\<bar> \<ge> 1 / 10 ^ 15 \<and>
   (\<exists>ol orr s1. StereoGainMeter_process_block
        \<lparr> initialized = True, stored_target_gain = 1, start_gain = 1, current_gain = 1,
          ramp_step = 0, meter_coeff_l = 0.1, meter_coeff_r = 0.1,
          meter_state_l = 0, meter_state_r = 0 \<rparr> [1, 1] [1, 1] 0 3 0 = Inr (ol, orr, s1) \<and>
      current_gain s1 = 3 \<and>
      (\<exists>ol2 or2 s2. StereoGainMeter_process_block s1 [5] [7] 0 3 0 = Inr ([15] @ ol2, [21] @ or2, s2)))"
proof -
  let ?s = "\<lparr> initialized = True, stored_target_gain = 1, start_gain = 1, current_gain = 1,
          ramp_step = 0, meter_coeff_l = 0.1, meter_coeff_r = 0.1,
          meter_state_l = 0, meter_state_r = 0 \<rparr>"
  have t: "target_of 0 3 0 = 3" by (simp add: target_of_def)
  have h: "\<bar>target_of 0 3 0 - stored_target_gain ?s\<bar> \<ge> 1 / 10 ^ 15" by (simp add: t)
  from ramp_completeness[of ?s "[1, 1]" "[1, 1]" 0 3 0, OF _ _ _ h]
  obtain ol orr s1 where
    r: "StereoGainMeter_process_block ?s [1, 1] [1, 1] 0 3 0 = Inr (ol, orr, s1)"
    and c: "current_gain s1 = 3"
    and n: "\<forall>x xs y ys. length xs \<le> length ys \<longrightarrow>
              (\<exists>ol2 or2 s2. StereoGainMeter_process_block s1 (x # xs) (y # ys) 0 3 0 =
                 Inr (x * 3 # ol2, y * 3 # or2, s2))"
    by (auto simp: t)
  from n[rule_format, of "[]" "[]" 5 7]
  have "\<exists>ol2 or2 s2. StereoGainMeter_process_block s1 [5] [7] 0 3 0 = Inr ([15] @ ol2, [21] @ or2, s2)"
    by simp
  with r c t show ?thesis by auto
qed

text \<open>
  Claim C9 (no-ramp idempotence). When an initialised stage is called with a target
  within \<^verbatim>\<open>1e-15\<close> of the target stored by the previous call, every sample of the block
  is multiplied by exactly the target gain, and the ramp step is 0: nothing is
  interpolated. Right samples beyond the length of the left list stay as they are.
\<close>

theorem no_ramp_idempotence:
  assumes "initialized s"
    and "\<bar>target_of m vn vb - stored_target_gain s\<bar> < 1 / 10 ^ 15"
    and "length ls \<le> length rs"
  shows "\<exists>s'. StereoGainMeter_process_block s ls rs m vn vb =
           Inr (map (\<lambda>x. x * target_of m vn vb) ls,
                map (\<lambda>x. x * target_of m vn vb) (take (length ls) rs) @ drop (length ls) rs,
                s') \<and>
           ramp_step s' = 0"
  using process_block_unchanged[OF assms] by blast

theorem no_ramp_idempotence_witness:
  "initialized \<lparr> initialized = True, stored_target_gain = 2, start_gain = 1, current_gain = 2,
       ramp_step = 1 / 4, meter_coeff_l = 0.1, meter_coeff_r = 0.1,
       meter_state_l = 0, meter_state_r = 0 \<rparr> \<and>
   \<bar>target_of 1 0 1 - 2\<bar> < 1 / 10 ^ 15 \<and> length [1, 3 :: real] \<le> length [5, 7 :: real] \<and>
   (\<exists>s'. StereoGainMeter_process_block
        \<lparr> initialized = True, stored_target_gain = 2, start_gain = 1, current_gain = 2,
          ramp_step = 1 / 4, meter_coeff_l = 0.1, meter_coeff_r = 0.1,
          meter_state_l = 0, meter_state_r = 0 \<rparr> [1, 3] [5, 7] 1 0 1 =
        Inr ([2, 6], [10, 14], s') \<and> ramp_step s' = 0)"
  using no_ramp_idempotence[of "\<lparr> initialized = True, stored_target_gain = 2, start_gain = 1,
          current_gain = 2, ramp_step = 1 / 4, meter_coeff_l = 0.1, meter_coeff_r = 0.1,
          meter_state_l = 0, meter_state_r = 0 \<rparr>" 1 0 1 "[1, 3]" "[5, 7]"]
  by (simp add: target_of_def)

subsection \<open>Calls with an empty block\<close>

text \<open>
  Claim C10, second half, fails as stated: an empty-block call that returns normally
  does change state other than the stored target. The stage below was ramped from
  1/2 to 1 over four samples, so its ramp step is 1/4 and its start gain 1/2; the empty
  call with the unchanged target 1 resets the ramp step to 0 and the start gain to 1.
\<close>

theorem empty_block_state_counterexample:
  "StereoGainMeter_process_block (StereoGainMeter_init 0.1 0.1) [0] [0] 0 (1 / 2) 0 =
     Inr ([0], [0], stage_first) \<and>
   StereoGainMeter_process_block stage_first [0, 0, 0, 0] [0, 0, 0, 0] 0 1 0 =
     Inr ([0, 0, 0, 0], [0, 0, 0, 0], stage_after_ramp) \<and>
   \<bar>target_of 0 1 0 - stored_target_gain stage_after_ramp\<bar> < 1 / 10 ^ 15 \<and>
   StereoGainMeter_process_block stage_after_ramp [] [] 0 1 0 =
     Inr ([], [], stage_after_ramp\<lparr> ramp_step := 0, start_gain := 1 \<rparr>) \<and>
   ramp_step (stage_after_ramp\<lparr> ramp_step := 0, start_gain := 1 \<rparr>) \<noteq> ramp_step stage_after_ramp \<and>
   start_gain (stage_after_ramp\<lparr> ramp_step := 0, start_gain := 1 \<rparr>) \<noteq> start_gain stage_after_ramp"
  by (simp add: StereoGainMeter_process_block_def StereoGainMeter_init_def stage_first_def
      stage_after_ramp_def setup_ramp_def target_of_def calculated_gain_def py_div_def Let_def)

text \<open>
  Claim C10, amended. On an empty block, an initialised stage whose target moved by at
  least \<^verbatim>\<open>1e-15\<close> fails with a division by zero. An initialised stage whose target is
  unchanged returns normally: the sample lists, the current gain, the meter states and
  coefficients and the flag are as before, the ramp step becomes 0 and the start gain and
  the stored target become the target. A stage not yet initialised returns normally and
  snaps to the target.
\<close>

theorem empty_block_call:
  "(initialized s \<and> \<bar>target_of m vn vb - stored_target_gain s\<bar> \<ge> 1 / 10 ^ 15 \<longrightarrow>
      StereoGainMeter_process_block s [] rs m vn vb = Inl ZeroDivisionError) \<and>
   (initialized s \<and> \<bar>target_of m vn vb - stored_target_gain s\<bar> < 1 / 10 ^ 15 \<longrightarrow>
      StereoGainMeter_process_block s [] rs m vn vb =
        Inr ([], rs, s\<lparr> ramp_step := 0, start_gain := target_of m vn vb,
                        stored_target_gain := target_of m vn vb \<rparr>)) \<and>
   (\<not> initialized s \<longrightarrow>
      StereoGainMeter_process_block s [] rs m vn vb =
        Inr ([], rs, s\<lparr> initialized := True, start_gain := target_of m vn vb,
                        stored_target_gain := target_of m vn vb, ramp_step := 0,
                        current_gain := target_of m vn vb \<rparr>))"
  by (simp add: StereoGainMeter_process_block_def Let_def setup_ramp_unchanged
      setup_ramp_changed setup_ramp_first)

theorem empty_block_call_witness:
  "(initialized stage_after_ramp \<and> \<bar>target_of 0 3 0 - stored_target_gain stage_after_ramp\<bar> \<ge> 1 / 10 ^ 15 \<and>
      StereoGainMeter_process_block stage_after_ramp [] [] 0 3 0 = Inl ZeroDivisionError) \<and>
   (initialized stage_after_ramp \<and> \<bar>target_of 0 1 0 - stored_target_gain stage_after_ramp\<bar> < 1 / 10 ^ 15 \<and>
      StereoGainMeter_process_block stage_after_ramp [] [] 0 1 0 =
        Inr ([], [], stage_after_ramp\<lparr> ramp_step := 0, start_gain := 1, stored_target_gain := 1 \<rparr>)) \<and>
   (\<not> initialized (StereoGainMeter_init 0.1 0.1) \<and>
      StereoGainMeter_process_block (StereoGainMeter_init 0.1 0.1) [] [] 0 3 0 =
        Inr ([], [], (StereoGainMeter_init 0.1 0.1)\<lparr> initialized := True, start_gain := 3,
                        stored_target_gain := 3, ramp_step := 0, current_gain := 3 \<rparr>))"
proof -
  have t: "target_of 0 3 0 = 3" "target_of 0 1 0 = 1" by (simp_all add: target_of_def)
  have i: "initialized stage_after_ramp" "stored_target_gain stage_after_ramp = 1"
    "\<not> initialized (StereoGainMeter_init 0.1 0.1)"
    by (simp_all add: stage_after_ramp_def StereoGainMeter_init_def)
  show ?thesis
    using empty_block_call[of stage_after_ramp 0 3 0 "[]"]
      empty_block_call[of stage_after_ramp 0 1 0 "[]"]
      empty_block_call[of "StereoGainMeter_init 0.1 0.1" 0 3 0 "[]"]
    by (simp add: t i)
qed

section \<open>Properties of the dynamics unit: coefficients and gain computer\<close>

lemma calc_coeff_range:
  assumes "sample_rate s > 0"
  shows "\<exists>c. calc_coeff s t = Inr c \<and> 0 < c \<and> c \<le> 1"
proof (cases "t \<le> 0")
  case True
  then show ?thesis by (simp add: calc_coeff_def)
next
  case False
  then have p: "t * sample_rate s > 0" using assms by simp
  then have n: "- 1 / (t * sample_rate s) < 0" by simp
  then have "exp (- 1 / (t * sample_rate s)) < 1" by simp
  moreover have "exp (- 1 / (t * sample_rate s)) > 0" by simp
  moreover have "py_exp (- 1 / (t * sample_rate s)) = Inr (exp (- 1 / (t * sample_rate s)))"
    using n by (intro py_exp_nonpos) simp
  moreover have "t * sample_rate s \<noteq> 0" using p by linarith
  then have "py_div (- 1) (t * sample_rate s) = Inr (- 1 / (t * sample_rate s))"
    unfolding py_div_def by (simp only: if_False)
  ultimately show ?thesis using False by (simp add: calc_coeff_def)
qed

lemma derive_coeffs_range:
  assumes "sample_rate s > 0"
  shows "\<exists>k. derive_coeffs s = Inr k \<and>
           0 < attack_coeff k \<and> attack_coeff k \<le> 1 \<and>
           0 < release_coeff k \<and> release_coeff k \<le> 1 \<and>
           0 < rms_coeff k \<and> rms_coeff k \<le> 1 \<and>
           0 < gain_smooth_coeff k \<and> gain_smooth_coeff k \<le> 1 \<and>
           0 \<le> slope k \<and> slope k < 1"
proof -
  from calc_coeff_range[OF assms, of "attack_time s"] obtain ac where
    a: "calc_coeff s (attack_time s) = Inr ac" "0 < ac" "ac \<le> 1" by blast
  from calc_coeff_range[OF assms, of "release_time s"] obtain rc where
    r: "calc_coeff s (release_time s) = Inr rc" "0 < rc" "rc \<le> 1" by blast
  from calc_coeff_range[OF assms, of "0.050"] obtain mc where
    m: "calc_coeff s 0.050 = Inr mc" "0 < mc" "mc \<le> 1" by blast
  from calc_coeff_range[OF assms, of "0.005"] obtain gc where
    g: "calc_coeff s 0.005 = Inr gc" "0 < gc" "gc \<le> 1" by blast
  have "ratio s > 1 \<Longrightarrow> 0 \<le> 1 - 1 / ratio s \<and> 1 - 1 / ratio s < 1"
    by (simp add: field_simps)
  then show ?thesis using a r m g by (simp add: derive_coeffs_def)
qed

text \<open>
  Claim C4 (gain computer identity at or below the threshold). For every envelope value
  that is not above the threshold the gain computer returns the target gain 1; and in a
  sample step whose detector (RMS when \<open>mode = 0\<close>, Peak otherwise) yields such an
  envelope, the gain that is smoothed towards is 1.
\<close>

theorem gain_computer_identity:
  "(current_env \<le> threshold s \<longrightarrow> target_gain_linear s sl current_env = Inr 1) \<and>
   (fst (detector k s samp_l samp_r) \<le> threshold s \<longrightarrow>
      compressor_sample k s samp_l samp_r =
        Inr (samp_l * (gain_state s + (1 - gain_state s) * gain_smooth_coeff k),
             samp_r * (gain_state s + (1 - gain_state s) * gain_smooth_coeff k),
             (snd (detector k s samp_l samp_r))
               \<lparr> gain_state := gain_state s + (1 - gain_state s) * gain_smooth_coeff k \<rparr>))"
proof -
  have d: "threshold (snd (detector k s samp_l samp_r)) = threshold s"
    "gain_state (snd (detector k s samp_l samp_r)) = gain_state s"
    by (simp_all add: detector_def Let_def)
  have t: "target_gain_linear s sl current_env = Inr 1" if "current_env \<le> threshold s"
    for s sl current_env
    using that by (simp add: target_gain_linear_def)
  have "compressor_sample k s samp_l samp_r =
        Inr (samp_l * (gain_state s + (1 - gain_state s) * gain_smooth_coeff k),
             samp_r * (gain_state s + (1 - gain_state s) * gain_smooth_coeff k),
             (snd (detector k s samp_l samp_r))
               \<lparr> gain_state := gain_state s + (1 - gain_state s) * gain_smooth_coeff k \<rparr>)"
    if h: "fst (detector k s samp_l samp_r) \<le> threshold s"
  proof -
    obtain env s1 where e: "detector k s samp_l samp_r = (env, s1)" by (cases "detector k s samp_l samp_r")
    with h d have "env \<le> threshold s1" "gain_state s1 = gain_state s" by simp_all
    with e t[of env s1 "slope k"] show ?thesis
      by (simp add: compressor_sample_def Let_def)
  qed
  with t show ?thesis by blast
qed

section \<open>Properties of the dynamics unit: the envelope\<close>

lemma and_then_Inr_iff:
  "and_then m f = Inr y \<longleftrightarrow> (\<exists>x. m = Inr x \<and> f x = Inr y)"
  by (cases m) simp_all

lemma EPSILON_pos: "0 < EPSILON"
  by (simp add: EPSILON_def)

lemma one_pole_nonneg:
  fixes p x c :: real
  assumes "0 \<le> p" "0 \<le> x" "0 \<le> c" "c \<le> 1"
  shows "0 \<le> p + (x - p) * c"
proof -
  have "p + (x - p) * c = p * (1 - c) + x * c" by (simp add: algebra_simps)
  moreover have "0 \<le> p * (1 - c)" using assms by simp
  moreover have "0 \<le> x * c" using assms by simp
  ultimately show ?thesis by linarith
qed

lemma detector_frame:
  "sample_rate (snd (detector k s x y)) = sample_rate s"
  "mode (snd (detector k s x y)) = mode s"
  "threshold (snd (detector k s x y)) = threshold s"
  "ratio (snd (detector k s x y)) = ratio s"
  "attack_time (snd (detector k s x y)) = attack_time s"
  "release_time (snd (detector k s x y)) = release_time s"
  "gain_state (snd (detector k s x y)) = gain_state s"
  by (simp_all add: detector_def Let_def)

lemma detector_nonneg:
  assumes "0 \<le> attack_coeff k" "attack_coeff k \<le> 1"
    and "0 \<le> release_coeff k" "release_coeff k \<le> 1"
    and "0 \<le> rms_coeff k" "rms_coeff k \<le> 1"
    and "0 \<le> peak_state s" "0 \<le> rms_state s"
  shows "0 \<le> fst (detector k s x y) \<and> 0 \<le> peak_state (snd (detector k s x y)) \<and>
         0 \<le> rms_state (snd (detector k s x y))"
proof (cases "mode s = 0")
  case True
  let ?pw = "(x * x + y * y) * 0.5"
  let ?p = "if ?pw \<le> EPSILON then EPSILON else ?pw"
  have "0 \<le> ?p" using EPSILON_pos by simp
  define r where "r = rms_state s + (?p - rms_state s) * rms_coeff k"
  from one_pole_nonneg[OF assms(8) \<open>0 \<le> ?p\<close> assms(5,6)]
  have r: "0 \<le> r" by (simp only: r_def)
  have "detector k s x y = (sqrt (max 0 r), s\<lparr> rms_state := r \<rparr>)"
    unfolding r_def using True by (simp add: detector_def Let_def)
  then show ?thesis using r assms(7) by simp
next
  case False
  let ?l = "if \<bar>x\<bar> > \<bar>y\<bar> then \<bar>x\<bar> else \<bar>y\<bar>"
  let ?c = "if ?l > peak_state s then attack_coeff k else release_coeff k"
  have l: "0 \<le> ?l" by simp
  have c: "0 \<le> ?c" "?c \<le> 1" using assms(1-4) by simp_all
  from one_pole_nonneg[OF assms(7) l c]
  have "0 \<le> peak_state s + (?l - peak_state s) * ?c" .
  then show ?thesis using False assms(8) by (simp add: detector_def Let_def)
qed

lemma compressor_sample_detector:
  "compressor_sample k s x y = Inr (ox, oy, s') \<Longrightarrow>
   peak_state s' = peak_state (snd (detector k s x y)) \<and>
   rms_state s' = rms_state (snd (detector k s x y)) \<and>
   sample_rate s' = sample_rate s \<and> mode s' = mode s \<and> threshold s' = threshold s \<and>
   ratio s' = ratio s \<and> attack_time s' = attack_time s \<and> release_time s' = release_time s"
  using detector_frame[of k s x y]
  by (auto simp: compressor_sample_def Let_def and_then_Inr_iff split: prod.splits)

lemma compressor_loop_nonneg:
  "compressor_loop k s ls rs = Inr (ol, orr, s') \<Longrightarrow>
   0 \<le> attack_coeff k \<and> attack_coeff k \<le> 1 \<and>
   0 \<le> release_coeff k \<and> release_coeff k \<le> 1 \<and>
   0 \<le> rms_coeff k \<and> rms_coeff k \<le> 1 \<Longrightarrow>
   0 \<le> peak_state s \<Longrightarrow> 0 \<le> rms_state s \<Longrightarrow>
   0 \<le> peak_state s' \<and> 0 \<le> rms_state s' \<and> sample_rate s' = sample_rate s"
proof (induction k s ls rs arbitrary: ol orr s' rule: compressor_loop.induct)
  case (1 k s rs)
  then show ?case by simp
next
  case (2 k s x ls)
  then show ?case by simp
next
  case (3 k s x ls y rs)
  from "3.prems"(1) obtain ox oy s1 ol' orr' where
    st: "compressor_sample k s x y = Inr (ox, oy, s1)"
    and rec: "compressor_loop k s1 ls rs = Inr (ol', orr', s')"
    by (auto simp: and_then_Inr_iff split: prod.splits)
  from "3.prems"(2) have
    r: "0 \<le> attack_coeff k" "attack_coeff k \<le> 1" "0 \<le> release_coeff k"
      "release_coeff k \<le> 1" "0 \<le> rms_coeff k" "rms_coeff k \<le> 1"
    by simp_all
  from compressor_sample_detector[OF st]
    detector_nonneg[OF r "3.prems"(3,4), of x y]
  have s1: "0 \<le> peak_state s1" "0 \<le> rms_state s1" "sample_rate s1 = sample_rate s"
    by auto
  from "3.IH"[OF rec "3.prems"(2) s1(1,2)] s1(3) show ?case by simp
qed

text \<open>
  The loop over a block is the loop over a prefix followed by the loop over the rest, so
  the state in the middle of a block is the state after the block's prefix.
\<close>

lemma compressor_loop_append:
  "length l1 = length r1 \<Longrightarrow>
   compressor_loop k s (l1 @ l2) (r1 @ r2) =
     and_then (compressor_loop k s l1 r1) (\<lambda>(o1, p1, s1).
       and_then (compressor_loop k s1 l2 r2) (\<lambda>(o2, p2, s2). Inr (o1 @ o2, p1 @ p2, s2)))"
proof (induction l1 r1 arbitrary: s rule: list_induct2)
  case Nil
  show ?case by (cases "compressor_loop k s l2 r2") auto
next
  case (Cons x xs y ys)
  show ?case
  proof (cases "compressor_sample k s x y")
    case (Inl e)
    then show ?thesis by simp
  next
    case (Inr res)
    obtain ox oy s1 where res: "res = (ox, oy, s1)" by (cases res)
    show ?thesis
    proof (cases "compressor_loop k s1 xs ys")
      case (Inl e)
      then show ?thesis using Inr res Cons.IH[of s1] by simp
    next
      case (Inr res1)
      obtain o1 p1 s2 where res1: "res1 = (o1, p1, s2)" by (cases res1)
      show ?thesis
        using \<open>compressor_sample k s x y = Inr res\<close> res Inr res1 Cons.IH[of s1]
        by (cases "compressor_loop k s2 l2 r2") auto
    qed
  qed
qed

lemma compressor_loop_prefix_nonneg:
  assumes "compressor_loop k s (l1 @ l2) (r1 @ r2) = Inr (ol, orr, s')"
    and "length l1 = length r1"
    and "0 \<le> attack_coeff k \<and> attack_coeff k \<le> 1 \<and>
         0 \<le> release_coeff k \<and> release_coeff k \<le> 1 \<and>
         0 \<le> rms_coeff k \<and> rms_coeff k \<le> 1"
    and "0 \<le> peak_state s" and "0 \<le> rms_state s"
  shows "\<exists>o1 p1 s1. compressor_loop k s l1 r1 = Inr (o1, p1, s1) \<and>
           0 \<le> peak_state s1 \<and> 0 \<le> rms_state s1"
proof -
  from assms(1) obtain o1 p1 s1 where
    "compressor_loop k s l1 r1 = Inr (o1, p1, s1)"
    unfolding compressor_loop_append[OF assms(2)] by (auto simp: and_then_Inr_iff)
  with compressor_loop_nonneg[OF this assms(3,4,5)] show ?thesis by blast
qed

text \<open>
  Claim C8 (the envelope is never negative). For a unit with a positive sample rate
  whose detector states are non-negative (the constructor sets both to 0, and only the
  detector writes them), the set-up yields coefficients with which every sample, of any
  sign, gives a non-negative envelope and non-negative detector states in either mode;
  and every block that is processed leaves the sample rate positive and both detector
  states non-negative, so the property carries over to every later block and, by
  \<open>compressor_loop_prefix_nonneg\<close>, to the state after every sample of a block.
\<close>

theorem envelope_nonneg:
  assumes "sample_rate s > 0" and "0 \<le> peak_state s" and "0 \<le> rms_state s"
  shows "(\<exists>k. derive_coeffs s = Inr k \<and>
            (\<forall>x y. 0 \<le> fst (detector k s x y) \<and>
                   0 \<le> peak_state (snd (detector k s x y)) \<and>
                   0 \<le> rms_state (snd (detector k s x y)))) \<and>
         (\<forall>ls rs ol orr s'.
            UnknownCompressor_process_block s ls rs = Inr (ol, orr, s') \<longrightarrow>
              sample_rate s' > 0 \<and> 0 \<le> peak_state s' \<and> 0 \<le> rms_state s')"
proof -
  from derive_coeffs_range[OF assms(1)] obtain k where
    k: "derive_coeffs s = Inr k"
    and r: "0 \<le> attack_coeff k" "attack_coeff k \<le> 1" "0 \<le> release_coeff k"
      "release_coeff k \<le> 1" "0 \<le> rms_coeff k" "rms_coeff k \<le> 1"
    by force
  have a: "\<forall>x y. 0 \<le> fst (detector k s x y) \<and>
                   0 \<le> peak_state (snd (detector k s x y)) \<and>
                   0 \<le> rms_state (snd (detector k s x y))"
    using detector_nonneg[OF r assms(2,3)] by blast
  have b: "sample_rate s' > 0 \<and> 0 \<le> peak_state s' \<and> 0 \<le> rms_state s'"
    if "UnknownCompressor_process_block s ls rs = Inr (ol, orr, s')" for ls rs ol orr s'
  proof -
    from that k have "compressor_loop k s ls rs = Inr (ol, orr, s')"
      by (simp add: UnknownCompressor_process_block_def)
    from compressor_loop_nonneg[OF this _ assms(2,3)] r assms(1) show ?thesis by simp
  qed
  from k a b show ?thesis by blast
qed


lemma target_gain_linear_total:
  assumes "0 \<le> threshold s" and "0 \<le> sl"
  shows "\<exists>g. target_gain_linear s sl env = Inr g \<and> 0 \<le> g"
proof (cases "threshold s < env")
  case False
  then show ?thesis by (simp add: target_gain_linear_def)
next
  case True
  let ?safe = "if env > EPSILON then env else EPSILON"
  have sp: "0 < ?safe" using EPSILON_pos by simp
  then have lo: "0 \<le> threshold s / ?safe" using assms(1) by simp
  have "threshold s \<le> ?safe" using True by simp
  then have hi: "threshold s / ?safe \<le> 1" using sp by (simp add: field_simps)
  from py_pow_unit[OF lo hi assms(2)] obtain g where
    "py_pow (threshold s / ?safe) sl = Inr g" "0 \<le> g" by blast
  then show ?thesis using True sp
    by (auto simp: target_gain_linear_def py_div_def Let_def)
qed

lemma compressor_sample_total:
  assumes "0 \<le> threshold s" and "0 \<le> slope k"
  shows "\<exists>ox oy s'. compressor_sample k s x y = Inr (ox, oy, s')"
proof -
  obtain env s1 where d: "detector k s x y = (env, s1)" by (cases "detector k s x y")
  then have "threshold s1 = threshold s" using detector_frame(3)[of k s x y] by simp
  with assms(1) have "0 \<le> threshold s1" by simp
  from target_gain_linear_total[OF this assms(2), of env] d show ?thesis
    by (auto simp: compressor_sample_def Let_def)
qed

lemma compressor_loop_total:
  "0 \<le> threshold s \<Longrightarrow> 0 \<le> slope k \<Longrightarrow> length ls \<le> length rs \<Longrightarrow>
   \<exists>ol orr s'. compressor_loop k s ls rs = Inr (ol, orr, s')"
proof (induction k s ls rs rule: compressor_loop.induct)
  case (1 k s rs)
  then show ?case by simp
next
  case (2 k s x ls)
  then show ?case by simp
next
  case (3 k s x ls y rs)
  from compressor_sample_total[OF "3.prems"(1,2), of x y] obtain ox oy s1 where
    st: "compressor_sample k s x y = Inr (ox, oy, s1)" by blast
  from compressor_sample_detector[OF st] "3.prems"(1) have "0 \<le> threshold s1" by simp
  from "3.IH"[OF this "3.prems"(2)] "3.prems"(3) obtain ol orr s' where
    "compressor_loop k s1 ls rs = Inr (ol, orr, s')" by auto
  with st show ?case by simp
qed

lemma compressor_loop_shape:
  "compressor_loop k s ls rs = Inr (ol, orr, s') \<Longrightarrow>
   length ol = length ls \<and> length orr = length rs \<and> length ls \<le> length rs \<and>
   sample_rate s' = sample_rate s \<and> mode s' = mode s \<and> threshold s' = threshold s \<and>
   ratio s' = ratio s \<and> attack_time s' = attack_time s \<and> release_time s' = release_time s"
proof (induction k s ls rs arbitrary: ol orr s' rule: compressor_loop.induct)
  case (1 k s rs)
  then show ?case by auto
next
  case (2 k s x ls)
  then show ?case by simp
next
  case (3 k s x ls y rs)
  from "3.prems"(1) obtain ox oy s1 ol' orr' where
    st: "compressor_sample k s x y = Inr (ox, oy, s1)"
    and rec: "compressor_loop k s1 ls rs = Inr (ol', orr', s')"
    and o: "ol = ox # ol'" "orr = oy # orr'"
    by (auto simp: and_then_Inr_iff split: prod.splits)
  from "3.IH"[OF rec] compressor_sample_detector[OF st] o show ?case by simp
qed

lemma UnknownCompressor_process_block_total:
  assumes "sample_rate s > 0" and "0 \<le> threshold s" and "length ls \<le> length rs"
  shows "\<exists>ol orr s'. UnknownCompressor_process_block s ls rs = Inr (ol, orr, s')"
proof -
  from derive_coeffs_range[OF assms(1)] obtain k where
    k: "derive_coeffs s = Inr k" and sl: "0 \<le> slope k" by blast
  from compressor_loop_total[OF assms(2) sl assms(3)] k show ?thesis
    by (simp add: UnknownCompressor_process_block_def)
qed

lemma UnknownCompressor_process_block_shape:
  assumes "UnknownCompressor_process_block s ls rs = Inr (ol, orr, s')"
  shows "length ol = length ls \<and> length orr = length rs \<and> length ls \<le> length rs \<and>
   sample_rate s' = sample_rate s \<and> mode s' = mode s \<and> threshold s' = threshold s \<and>
   ratio s' = ratio s \<and> attack_time s' = attack_time s \<and> release_time s' = release_time s"
  using assms compressor_loop_shape
  by (auto simp: UnknownCompressor_process_block_def and_then_Inr_iff)

theorem envelope_nonneg_witness:
  "sample_rate (UnknownCompressor_init 44100) > 0 \<and>
   0 \<le> peak_state (UnknownCompressor_init 44100) \<and>
   0 \<le> rms_state (UnknownCompressor_init 44100) \<and>
   (\<exists>ol orr s'. UnknownCompressor_process_block (UnknownCompressor_init 44100) [- 1] [1 / 2] =
        Inr (ol, orr, s') \<and> 0 \<le> peak_state s' \<and> 0 \<le> rms_state s') \<and>
   (\<exists>ol orr s'. UnknownCompressor_process_block ((UnknownCompressor_init 44100)\<lparr> mode := 0 \<rparr>)
        [- 1] [1 / 2] = Inr (ol, orr, s') \<and> 0 \<le> peak_state s' \<and> 0 \<le> rms_state s')"
proof -
  let ?s = "UnknownCompressor_init 44100"
  let ?r = "?s\<lparr> mode := 0 \<rparr>"
  have h: "sample_rate ?s > 0" "0 \<le> peak_state ?s" "0 \<le> rms_state ?s" "0 \<le> threshold ?s"
    "sample_rate ?r > 0" "0 \<le> peak_state ?r" "0 \<le> rms_state ?r" "0 \<le> threshold ?r"
    by (simp_all add: UnknownCompressor_init_def)
  have len: "length [- 1 :: real] \<le> length [1 / 2 :: real]" by simp
  from UnknownCompressor_process_block_total[OF h(1) h(4) len] obtain ol orr s' where
    p: "UnknownCompressor_process_block ?s [- 1] [1 / 2] = Inr (ol, orr, s')" by blast
  from UnknownCompressor_process_block_total[OF h(5) h(8) len] obtain ol2 orr2 s2 where
    q: "UnknownCompressor_process_block ?r [- 1] [1 / 2] = Inr (ol2, orr2, s2)" by blast
  from envelope_nonneg[OF h(1-3)] p have "0 \<le> peak_state s' \<and> 0 \<le> rms_state s'" by blast
  moreover from envelope_nonneg[OF h(5-7)] q have "0 \<le> peak_state s2 \<and> 0 \<le> rms_state s2"
    by blast
  ultimately show ?thesis using h(1-3) p q by blast
qed

theorem gain_computer_identity_witness:
  "(1 / 2 \<le> threshold (UnknownCompressor_init 44100) \<and>
      target_gain_linear (UnknownCompressor_init 44100) (3 / 4) (1 / 2) = Inr 1) \<and>
   (fst (detector \<lparr> attack_coeff = 1 / 2, release_coeff = 1 / 2, rms_coeff = 1,
                    gain_smooth_coeff = 1 / 2, slope = 3 / 4 \<rparr>
           (UnknownCompressor_init 44100) (- 1) (1 / 2)) \<le> threshold (UnknownCompressor_init 44100) \<and>
    fst (detector \<lparr> attack_coeff = 1 / 2, release_coeff = 1 / 2, rms_coeff = 1,
                    gain_smooth_coeff = 1 / 2, slope = 3 / 4 \<rparr>
           ((UnknownCompressor_init 44100)\<lparr> mode := 0 \<rparr>) (- 1) (1 / 2))
      \<le> threshold ((UnknownCompressor_init 44100)\<lparr> mode := 0 \<rparr>) \<and>
    (\<exists>s'. compressor_sample \<lparr> attack_coeff = 1 / 2, release_coeff = 1 / 2, rms_coeff = 1,
                    gain_smooth_coeff = 1 / 2, slope = 3 / 4 \<rparr>
           (UnknownCompressor_init 44100) (- 1) (1 / 2) = Inr (- 1, 1 / 2, s')) \<and>
    (\<exists>s'. compressor_sample \<lparr> attack_coeff = 1 / 2, release_coeff = 1 / 2, rms_coeff = 1,
                    gain_smooth_coeff = 1 / 2, slope = 3 / 4 \<rparr>
           ((UnknownCompressor_init 44100)\<lparr> mode := 0 \<rparr>) (- 1) (1 / 2) = Inr (- 1, 1 / 2, s')))"
proof -
  let ?k = "\<lparr> attack_coeff = 1 / 2, release_coeff = 1 / 2, rms_coeff = 1,
                    gain_smooth_coeff = 1 / 2, slope = 3 / 4 \<rparr>"
  let ?s = "UnknownCompressor_init 44100"
  let ?r = "?s\<lparr> mode := 0 \<rparr>"
  have e: "\<not> (5 / 8 :: real) \<le> EPSILON" by (simp add: EPSILON_def)
  have p: "fst (detector ?k ?s (- 1) (1 / 2)) \<le> threshold ?s"
    by (simp add: detector_def UnknownCompressor_init_def Let_def)
  have "fst (detector ?k ?r (- 1) (1 / 2)) = sqrt (5 / 8)"
    using e by (simp add: detector_def UnknownCompressor_init_def Let_def)
  moreover have "sqrt (5 / 8) \<le> 1" by (simp add: real_sqrt_le_1_iff)
  ultimately have r: "fst (detector ?k ?r (- 1) (1 / 2)) \<le> threshold ?r"
    by (simp add: UnknownCompressor_init_def)
  have g: "gain_state ?s = 1" "gain_state ?r = 1" "threshold ?s = 1"
    by (simp_all add: UnknownCompressor_init_def)
  from gain_computer_identity[of "1 / 2" ?s "3 / 4" ?k "- 1" "1 / 2"]
    gain_computer_identity[of "1 / 2" ?r "3 / 4" ?k "- 1" "1 / 2"] p r
  show ?thesis by (simp add: g)
qed

section \<open>Properties of the dynamics unit: Peak-mode ballistics\<close>

lemma peak_step:
  assumes "mode s \<noteq> 0"
  shows "peak_state (snd (detector k s x y)) =
           peak_state s + (max \<bar>x\<bar> \<bar>y\<bar> - peak_state s) *
             (if max \<bar>x\<bar> \<bar>y\<bar> > peak_state s then attack_coeff k else release_coeff k)"
proof -
  have "(if \<bar>x\<bar> > \<bar>y\<bar> then \<bar>x\<bar> else \<bar>y\<bar>) = max \<bar>x\<bar> \<bar>y\<bar>" by (simp add: max_def)
  then show ?thesis using assms by (simp add: detector_def Let_def)
qed

lemma one_pole_between:
  fixes p l c :: real
  assumes "p \<le> l" "0 \<le> c" "c \<le> 1"
  shows "p \<le> p + (l - p) * c" and "p + (l - p) * c \<le> l"
proof -
  have a: "0 \<le> (l - p) * c" using assms by simp
  have b: "(l - p) * c \<le> l - p" using assms by (intro mult_left_le) simp_all
  show "p \<le> p + (l - p) * c" using a by linarith
  show "p + (l - p) * c \<le> l" using b by linarith
qed

lemma one_pole_between_down:
  fixes p l c :: real
  assumes "l \<le> p" "0 \<le> c" "c \<le> 1"
  shows "p + (l - p) * c \<le> p" and "l \<le> p + (l - p) * c"
proof -
  have a: "0 \<le> (p - l) * c" using assms by simp
  have b: "(p - l) * c \<le> p - l" using assms by (intro mult_left_le) simp_all
  have e: "(l - p) * c = - ((p - l) * c)" by (simp add: algebra_simps)
  show "p + (l - p) * c \<le> p" using a e by linarith
  show "l \<le> p + (l - p) * c" using b e by linarith
qed

lemma peak_after_rising:
  "mode s \<noteq> 0 \<Longrightarrow> peak_state s \<le> max \<bar>x\<bar> \<bar>y\<bar> \<Longrightarrow>
   0 \<le> attack_coeff k \<Longrightarrow> attack_coeff k \<le> 1 \<Longrightarrow>
   peak_after k s x y n =
     max \<bar>x\<bar> \<bar>y\<bar> - (max \<bar>x\<bar> \<bar>y\<bar> - peak_state s) * (1 - attack_coeff k) ^ n"
proof (induction n arbitrary: s)
  case 0
  then show ?case by simp
next
  case (Suc n)
  let ?L = "max \<bar>x\<bar> \<bar>y\<bar>"
  let ?s1 = "snd (detector k s x y)"
  have st: "peak_state ?s1 = peak_state s + (?L - peak_state s) * attack_coeff k"
    using peak_step[OF Suc.prems(1), of k x y] Suc.prems(2) by (cases "peak_state s < ?L") auto
  have le: "peak_state ?s1 \<le> ?L"
    unfolding st by (rule one_pole_between(2)[OF Suc.prems(2,3,4)])
  have m: "mode ?s1 \<noteq> 0" using Suc.prems(1) by (simp add: detector_frame)
  have "peak_after k s x y (Suc n) = peak_after k ?s1 x y n" by simp
  also have "\<dots> = ?L - (?L - peak_state ?s1) * (1 - attack_coeff k) ^ n"
    by (rule Suc.IH[OF m le Suc.prems(3,4)])
  also have "?L - peak_state ?s1 = (?L - peak_state s) * (1 - attack_coeff k)"
    using st by (simp add: algebra_simps)
  finally show ?case by (simp add: mult.assoc)
qed

lemma peak_after_falling:
  "mode s \<noteq> 0 \<Longrightarrow> max \<bar>x\<bar> \<bar>y\<bar> \<le> peak_state s \<Longrightarrow>
   0 \<le> release_coeff k \<Longrightarrow> release_coeff k \<le> 1 \<Longrightarrow>
   peak_after k s x y n =
     max \<bar>x\<bar> \<bar>y\<bar> + (peak_state s - max \<bar>x\<bar> \<bar>y\<bar>) * (1 - release_coeff k) ^ n"
proof (induction n arbitrary: s)
  case 0
  then show ?case by simp
next
  case (Suc n)
  let ?L = "max \<bar>x\<bar> \<bar>y\<bar>"
  let ?s1 = "snd (detector k s x y)"
  have st: "peak_state ?s1 = peak_state s + (?L - peak_state s) * release_coeff k"
    using peak_step[OF Suc.prems(1), of k x y] Suc.prems(2) by auto
  have le: "?L \<le> peak_state ?s1"
    unfolding st by (rule one_pole_between_down(2)[OF Suc.prems(2,3,4)])
  have m: "mode ?s1 \<noteq> 0" using Suc.prems(1) by (simp add: detector_frame)
  have "peak_after k s x y (Suc n) = peak_after k ?s1 x y n" by simp
  also have "\<dots> = ?L + (peak_state ?s1 - ?L) * (1 - release_coeff k) ^ n"
    by (rule Suc.IH[OF m le Suc.prems(3,4)])
  also have "peak_state ?s1 - ?L = (peak_state s - ?L) * (1 - release_coeff k)"
    using st by (simp add: algebra_simps)
  finally show ?case by (simp add: mult.assoc)
qed

lemma geometric_to_zero:
  fixes c d :: real
  assumes "0 < c" "c \<le> 1"
  shows "(\<lambda>n. d * (1 - c) ^ n) \<longlonglongrightarrow> 0"
proof -
  have "norm (1 - c) < 1" using assms by simp
  then have "(\<lambda>n. (1 - c) ^ n) \<longlonglongrightarrow> 0" by (rule LIMSEQ_power_zero)
  from tendsto_mult_left[OF this, of d] show ?thesis by simp
qed

lemma geometric_step:
  fixes c d :: real
  assumes "0 \<le> d" "0 \<le> c" "c \<le> 1"
  shows "d * (1 - c) ^ Suc n \<le> d * (1 - c) ^ n" and "0 \<le> d * (1 - c) ^ n"
proof -
  have p: "0 \<le> (1 - c) ^ n" using assms by simp
  have "(1 - c) ^ Suc n \<le> (1 - c) ^ n"
    using assms by (intro power_decreasing) simp_all
  then show "d * (1 - c) ^ Suc n \<le> d * (1 - c) ^ n"
    using assms(1) by (rule mult_left_mono)
  show "0 \<le> d * (1 - c) ^ n" using assms(1) p by simp
qed


lemma detector_peak_cong:
  "peak_state a = peak_state b \<Longrightarrow> mode a = mode b \<Longrightarrow>
   peak_state (snd (detector k a x y)) = peak_state (snd (detector k b x y))"
  by (simp add: detector_def Let_def)

lemma peak_after_cong:
  "peak_state a = peak_state b \<Longrightarrow> mode a = mode b \<Longrightarrow>
   peak_after k a x y n = peak_after k b x y n"
proof (induction n arbitrary: a b)
  case 0
  then show ?case by simp
next
  case (Suc n)
  have "peak_after k (snd (detector k a x y)) x y n = peak_after k (snd (detector k b x y)) x y n"
    by (rule Suc.IH[OF detector_peak_cong[OF Suc.prems]]) (simp add: detector_frame Suc.prems)
  then show ?case by simp
qed

lemma peak_after_loop:
  "compressor_loop k s (replicate n x) (replicate n y) = Inr (ol, orr, s') \<Longrightarrow>
   peak_state s' = peak_after k s x y n"
proof (induction n arbitrary: s ol orr)
  case 0
  then show ?case by simp
next
  case (Suc n)
  from Suc.prems obtain ox oy s1 ol' orr' where
    st: "compressor_sample k s x y = Inr (ox, oy, s1)"
    and rec: "compressor_loop k s1 (replicate n x) (replicate n y) = Inr (ol', orr', s')"
    by (auto simp: and_then_Inr_iff split: prod.splits)
  from compressor_sample_detector[OF st]
  have "peak_state s1 = peak_state (snd (detector k s x y))"
    "mode s1 = mode (snd (detector k s x y))"
    by (simp_all add: detector_frame)
  then have "peak_after k s1 x y n = peak_after k (snd (detector k s x y)) x y n"
    by (rule peak_after_cong)
  with Suc.IH[OF rec] show ?case by simp
qed

text \<open>
  Claim C7 (envelope monotonicity in Peak mode). Let the unit be in Peak mode with a
  positive sample rate, \<open>k\<close> the coefficients of its set-up, and let the input be held
  at one stereo sample whose level is \<open>L = max |x| |y|\<close>. If \<open>L\<close> is above the peak
  state \<open>p\<close>, the peak state after \<open>n\<close> samples is \<open>L - (L - p) * (1 - attack) ^ n\<close>:
  it never decreases, stays at or below \<open>L\<close>, tends to \<open>L\<close>, and the release
  coefficient does not occur. If \<open>L\<close> is below \<open>p\<close>, it is
  \<open>L + (p - L) * (1 - release) ^ n\<close>: it never increases, stays at or above \<open>L\<close>,
  tends to \<open>L\<close>, and the attack coefficient does not occur. By \<open>peak_after_loop\<close>
  this is the peak state the block loop leaves after \<open>n\<close> such samples.
\<close>

theorem peak_envelope_monotone:
  assumes "sample_rate s > 0" and "mode s \<noteq> 0" and "derive_coeffs s = Inr k"
  shows "(peak_state s < max \<bar>x\<bar> \<bar>y\<bar> \<longrightarrow>
            (\<forall>n. peak_after k s x y n =
                   max \<bar>x\<bar> \<bar>y\<bar> - (max \<bar>x\<bar> \<bar>y\<bar> - peak_state s) * (1 - attack_coeff k) ^ n \<and>
                 peak_after k s x y n \<le> peak_after k s x y (Suc n) \<and>
                 peak_after k s x y n \<le> max \<bar>x\<bar> \<bar>y\<bar>) \<and>
            (\<lambda>n. peak_after k s x y n) \<longlonglongrightarrow> max \<bar>x\<bar> \<bar>y\<bar>) \<and>
         (max \<bar>x\<bar> \<bar>y\<bar> < peak_state s \<longrightarrow>
            (\<forall>n. peak_after k s x y n =
                   max \<bar>x\<bar> \<bar>y\<bar> + (peak_state s - max \<bar>x\<bar> \<bar>y\<bar>) * (1 - release_coeff k) ^ n \<and>
                 peak_after k s x y (Suc n) \<le> peak_after k s x y n \<and>
                 max \<bar>x\<bar> \<bar>y\<bar> \<le> peak_after k s x y n) \<and>
            (\<lambda>n. peak_after k s x y n) \<longlonglongrightarrow> max \<bar>x\<bar> \<bar>y\<bar>)"
proof -
  let ?L = "max \<bar>x\<bar> \<bar>y\<bar>"
  from derive_coeffs_range[OF assms(1)] assms(3) have
    a: "0 < attack_coeff k" "attack_coeff k \<le> 1"
    and r: "0 < release_coeff k" "release_coeff k \<le> 1"
    by auto
  have up: "(\<forall>n. peak_after k s x y n = ?L - (?L - peak_state s) * (1 - attack_coeff k) ^ n \<and>
                 peak_after k s x y n \<le> peak_after k s x y (Suc n) \<and>
                 peak_after k s x y n \<le> ?L) \<and>
            (\<lambda>n. peak_after k s x y n) \<longlonglongrightarrow> ?L"
    if lt: "peak_state s < ?L"
  proof -
    have d: "0 \<le> ?L - peak_state s" using lt by simp
    have cf: "peak_after k s x y n = ?L - (?L - peak_state s) * (1 - attack_coeff k) ^ n" for n
      using peak_after_rising[OF assms(2), of x y k n] lt a by simp
    have mono: "peak_after k s x y n \<le> peak_after k s x y (Suc n)" for n
      using geometric_step(1)[OF d less_imp_le[OF a(1)] a(2), of n]
      unfolding cf by linarith
    have bd: "peak_after k s x y n \<le> ?L" for n
      using geometric_step(2)[OF d less_imp_le[OF a(1)] a(2), of n]
      unfolding cf by linarith
    have "(\<lambda>n. ?L - (?L - peak_state s) * (1 - attack_coeff k) ^ n) \<longlonglongrightarrow> ?L - 0"
      by (intro tendsto_diff tendsto_const geometric_to_zero a)
    then have "(\<lambda>n. peak_after k s x y n) \<longlonglongrightarrow> ?L" by (simp add: cf)
    with cf mono bd show ?thesis by blast
  qed
  have down: "(\<forall>n. peak_after k s x y n = ?L + (peak_state s - ?L) * (1 - release_coeff k) ^ n \<and>
                 peak_after k s x y (Suc n) \<le> peak_after k s x y n \<and>
                 ?L \<le> peak_after k s x y n) \<and>
            (\<lambda>n. peak_after k s x y n) \<longlonglongrightarrow> ?L"
    if lt: "?L < peak_state s"
  proof -
    have d: "0 \<le> peak_state s - ?L" using lt by simp
    have cf: "peak_after k s x y n = ?L + (peak_state s - ?L) * (1 - release_coeff k) ^ n" for n
      using peak_after_falling[OF assms(2), of x y k n] lt r by simp
    have mono: "peak_after k s x y (Suc n) \<le> peak_after k s x y n" for n
      using geometric_step(1)[OF d less_imp_le[OF r(1)] r(2), of n]
      unfolding cf by linarith
    have bd: "?L \<le> peak_after k s x y n" for n
      using geometric_step(2)[OF d less_imp_le[OF r(1)] r(2), of n]
      unfolding cf by linarith
    have "(\<lambda>n. ?L + (peak_state s - ?L) * (1 - release_coeff k) ^ n) \<longlonglongrightarrow> ?L + 0"
      by (intro tendsto_add tendsto_const geometric_to_zero r)
    then have "(\<lambda>n. peak_after k s x y n) \<longlonglongrightarrow> ?L" by (simp add: cf)
    with cf mono bd show ?thesis by blast
  qed
  from up down show ?thesis by blast
qed


theorem peak_envelope_monotone_witness:
  "sample_rate (UnknownCompressor_init 44100) > 0 \<and> mode (UnknownCompressor_init 44100) \<noteq> 0 \<and>
   (\<exists>k. derive_coeffs (UnknownCompressor_init 44100) = Inr k \<and>
        peak_state (UnknownCompressor_init 44100) < max \<bar>- 1\<bar> \<bar>1 / 2\<bar> \<and>
        (\<forall>n. peak_after k (UnknownCompressor_init 44100) (- 1) (1 / 2) n =
               max \<bar>- 1\<bar> \<bar>1 / 2\<bar> -
                 (max \<bar>- 1\<bar> \<bar>1 / 2\<bar> - peak_state (UnknownCompressor_init 44100)) *
                   (1 - attack_coeff k) ^ n \<and>
             peak_after k (UnknownCompressor_init 44100) (- 1) (1 / 2) n
               \<le> peak_after k (UnknownCompressor_init 44100) (- 1) (1 / 2) (Suc n) \<and>
             peak_after k (UnknownCompressor_init 44100) (- 1) (1 / 2) n \<le> max \<bar>- 1\<bar> \<bar>1 / 2\<bar>) \<and>
        (\<lambda>n. peak_after k (UnknownCompressor_init 44100) (- 1) (1 / 2) n)
          \<longlonglongrightarrow> max \<bar>- 1\<bar> \<bar>1 / 2\<bar> \<and>
        max \<bar>0\<bar> \<bar>0\<bar> < peak_state ((UnknownCompressor_init 44100)\<lparr> peak_state := 1 \<rparr>) \<and>
        (\<forall>n. peak_after k ((UnknownCompressor_init 44100)\<lparr> peak_state := 1 \<rparr>) 0 0 n =
               max \<bar>0\<bar> \<bar>0\<bar> +
                 (peak_state ((UnknownCompressor_init 44100)\<lparr> peak_state := 1 \<rparr>) - max \<bar>0\<bar> \<bar>0\<bar>) *
                   (1 - release_coeff k) ^ n \<and>
             peak_after k ((UnknownCompressor_init 44100)\<lparr> peak_state := 1 \<rparr>) 0 0 (Suc n)
               \<le> peak_after k ((UnknownCompressor_init 44100)\<lparr> peak_state := 1 \<rparr>) 0 0 n \<and>
             max \<bar>0\<bar> \<bar>0\<bar> \<le> peak_after k ((UnknownCompressor_init 44100)\<lparr> peak_state := 1 \<rparr>) 0 0 n) \<and>
        (\<lambda>n. peak_after k ((UnknownCompressor_init 44100)\<lparr> peak_state := 1 \<rparr>) 0 0 n)
          \<longlonglongrightarrow> max \<bar>0\<bar> \<bar>0\<bar>)"
proof -
  let ?s = "UnknownCompressor_init 44100"
  let ?t = "?s\<lparr> peak_state := 1 \<rparr>"
  have h: "sample_rate ?s > 0" "mode ?s \<noteq> 0" "sample_rate ?t > 0" "mode ?t \<noteq> 0"
    by (simp_all add: UnknownCompressor_init_def)
  from derive_coeffs_range[OF h(1)] obtain k where k: "derive_coeffs ?s = Inr k" by blast
  have "derive_coeffs ?t = derive_coeffs ?s"
    by (simp add: derive_coeffs_def calc_coeff_def)
  with k have kt: "derive_coeffs ?t = Inr k" by simp
  have up: "peak_state ?s < max \<bar>- 1\<bar> \<bar>1 / 2\<bar>"
    and down: "max \<bar>0\<bar> \<bar>0\<bar> < peak_state ?t"
    by (simp_all add: UnknownCompressor_init_def)
  from peak_envelope_monotone[OF h(1,2) k, of "- 1" "1 / 2"]
    peak_envelope_monotone[OF h(3,4) kt, of 0 0] up down h(1,2) k
  show ?thesis by blast
qed

section \<open>The static gate of the high lane\<close>

lemma high_gate_init:
  "high_gate (FreshAirClone_init rate) =
     \<lparr> sample_rate = rate, mode = 2, threshold = 0, ratio = 4,
       attack_time = 0.002, release_time = 0.100,
       rms_state = 0, peak_state = 0, gain_state = 1 \<rparr>"
  by (simp add: FreshAirClone_init_def UnknownCompressor_init_def)

lemma high_gate_coeffs:
  "derive_coeffs (high_gate (FreshAirClone_init 44100)) =
     Inr \<lparr> attack_coeff = 1 - exp (- 1 / (0.002 * 44100)),
           release_coeff = 1 - exp (- 1 / (0.100 * 44100)),
           rms_coeff = 1 - exp (- 1 / (0.050 * 44100)),
           gain_smooth_coeff = 1 - exp (- 1 / (0.005 * 44100)),
           slope = 3 / 4 \<rparr>"
  by (simp add: high_gate_init derive_coeffs_def calc_coeff_def py_div_def py_exp_nonpos)

lemma exp_neg_lt_one: "exp (- 1 / (0.002 * 44100) :: real) < 1" "exp (- 1 / (0.005 * 44100) :: real) < 1"
  by simp_all

text \<open>
  Claim C1 says that the high-lane gate, a dynamics unit with threshold 0, returns its
  input. The code does not: with threshold 0 every non-zero envelope is above the
  threshold, the gain computer yields \<open>(0 / envelope) ^ slope = 0\<close>, and the smoothed
  gain leaves 1. On a fresh gate at 44100 Hz the block \<open>([1], [0])\<close> comes back as
  \<open>([exp (- 1 / 220.5)], [0])\<close>, and \<open>exp (- 1 / 220.5) < 1\<close>.
\<close>

theorem static_gate_attenuates:
  "UnknownCompressor_process_block (high_gate (FreshAirClone_init 44100)) [1] [0] =
     Inr ([exp (- 1 / (0.005 * 44100))], [0],
          (high_gate (FreshAirClone_init 44100))
            \<lparr> peak_state := 1 - exp (- 1 / (0.002 * 44100)),
              gain_state := exp (- 1 / (0.005 * 44100)) \<rparr>) \<and>
   exp (- 1 / (0.005 * 44100)) < (1 :: real)"
proof -
  let ?g = "high_gate (FreshAirClone_init 44100)"
  let ?k = "\<lparr> attack_coeff = 1 - exp (- 1 / (0.002 * 44100)),
           release_coeff = 1 - exp (- 1 / (0.100 * 44100)),
           rms_coeff = 1 - exp (- 1 / (0.050 * 44100)),
           gain_smooth_coeff = 1 - exp (- 1 / (0.005 * 44100)),
           slope = 3 / 4 \<rparr>"
  let ?a = "1 - exp (- 1 / (0.002 * 44100) :: real)"
  have a: "0 < ?a" using exp_neg_lt_one(1) by simp
  have d: "detector ?k ?g 1 0 = (?a, ?g\<lparr> peak_state := ?a \<rparr>)"
    by (simp add: high_gate_init detector_def Let_def)
  have t: "target_gain_linear (?g\<lparr> peak_state := ?a \<rparr>) (slope ?k) ?a = Inr 0"
    using a EPSILON_pos
    by (simp add: high_gate_init target_gain_linear_def Let_def py_div_def py_pow_def)
  have s: "compressor_sample ?k ?g 1 0 =
      Inr (exp (- 1 / (0.005 * 44100)), 0,
           ?g\<lparr> peak_state := ?a, gain_state := exp (- 1 / (0.005 * 44100)) \<rparr>)"
    unfolding compressor_sample_def d prod.case t
    by (simp add: high_gate_init Let_def)
  have "UnknownCompressor_process_block ?g [1] [0] =
     Inr ([exp (- 1 / (0.005 * 44100))], [0],
          ?g\<lparr> peak_state := ?a, gain_state := exp (- 1 / (0.005 * 44100)) \<rparr>)"
    unfolding UnknownCompressor_process_block_def high_gate_coeffs and_then.simps
      compressor_loop.simps s prod.case
    by simp
  then show ?thesis using exp_neg_lt_one(2) by simp
qed

section \<open>Properties of the filter\<close>

lemma and_then_Inl_iff:
  "and_then m f = Inl e \<longleftrightarrow> m = Inl e \<or> (\<exists>x. m = Inr x \<and> f x = Inl e)"
  by (cases m) simp_all

lemma guarded_inv_eq:
  "guarded_inv denom = Inr (if \<bar>denom\<bar> > 1 / 10 ^ 20 then 1 / denom else 0)"
proof (cases "\<bar>denom\<bar> > 1 / 10 ^ 20")
  case True
  then have "denom \<noteq> 0" by auto
  with True show ?thesis by (simp add: guarded_inv_def py_div_def)
next
  case False
  then show ?thesis by (simp add: guarded_inv_def)
qed

lemma filter_loop_no_zero_division:
  "filter_loop cs st ls rs \<noteq> Inl ZeroDivisionError"
proof (induction ls arbitrary: cs st rs)
  case Nil
  show ?case by simp
next
  case (Cons x ls)
  obtain c0 c1 c2 c3 c4 where cs: "cs = (c0, c1, c2, c3, c4)" by (cases cs)
  obtain s0 s1 s2 s3 where st: "st = (s0, s1, s2, s3)" by (cases st)
  show ?case
  proof (cases rs)
    case Nil
    then show ?thesis unfolding cs st by (simp add: guarded_inv_eq Let_def)
  next
    case (Cons y rs')
    show ?thesis
      unfolding cs st Cons filter_loop.simps guarded_inv_eq and_then.simps Let_def list.case
      using Cons.IH by (auto simp: and_then_Inl_iff)
  qed
qed

lemma filter_loop_Cons:
  "\<exists>st1 ox oy.
     filter_loop (c0, c1, c2, c3, c4) (s0, s1, s2, s3) (x # ls) (y # rs) =
       and_then (filter_loop (c0, c1, c2, c3, c4) st1 ls rs)
         (\<lambda>(ol, orr, st', cs'). Inr (ox # ol, oy # orr, st', cs'))"
  unfolding filter_loop.simps guarded_inv_eq and_then.simps Let_def list.case add_0_right
  by (intro exI) (rule refl)

lemma filter_loop_total:
  "length ls \<le> length rs \<Longrightarrow>
   \<exists>ol orr st'. filter_loop cs st ls rs = Inr (ol, orr, st', cs) \<and>
      length ol = length ls \<and> length orr = length ls"
proof (induction ls arbitrary: st rs)
  case Nil
  show ?case by (intro exI[of _ "[]"] exI[of _ st]) simp
next
  case (Cons x ls)
  obtain c0 c1 c2 c3 c4 where cs: "cs = (c0, c1, c2, c3, c4)" by (cases cs)
  obtain s0 s1 s2 s3 where st: "st = (s0, s1, s2, s3)" by (cases st)
  from Cons.prems obtain y rs' where rs: "rs = y # rs'" and len: "length ls \<le> length rs'"
    by (cases rs) auto
  from filter_loop_Cons[of c0 c1 c2 c3 c4 s0 s1 s2 s3 x ls y rs'] obtain st1 ox oy where
    step: "filter_loop cs st (x # ls) rs =
       and_then (filter_loop cs st1 ls rs')
         (\<lambda>(ol, orr, st', cs'). Inr (ox # ol, oy # orr, st', cs'))"
    unfolding cs st rs by blast
  from Cons.IH[OF len, of st1] obtain ol orr st' where
    "filter_loop cs st1 ls rs' = Inr (ol, orr, st', cs)"
    "length ol = length ls" "length orr = length ls" by blast
  then show ?case unfolding step
    by (intro exI[of _ "ox # ol"] exI[of _ "oy # orr"] exI[of _ st']) simp
qed

lemma filter_loop_shape:
  "filter_loop cs st ls rs = Inr (ol, orr, st', cs') \<Longrightarrow>
   length ol = length ls \<and> length orr = length ls \<and> length ls \<le> length rs \<and> cs' = cs"
proof (induction ls arbitrary: st rs ol orr)
  case Nil
  then show ?case by simp
next
  case (Cons x ls)
  obtain c0 c1 c2 c3 c4 where cs: "cs = (c0, c1, c2, c3, c4)" by (cases cs)
  obtain s0 s1 s2 s3 where st: "st = (s0, s1, s2, s3)" by (cases st)
  from Cons.prems obtain y rs' where rs: "rs = y # rs'"
    unfolding cs st by (cases rs) (auto simp: guarded_inv_eq Let_def)
  from filter_loop_Cons[of c0 c1 c2 c3 c4 s0 s1 s2 s3 x ls y rs'] obtain st1 ox oy where
    step: "filter_loop cs st (x # ls) rs =
       and_then (filter_loop cs st1 ls rs')
         (\<lambda>(ol, orr, st', cs'). Inr (ox # ol, oy # orr, st', cs'))"
    unfolding cs st rs by blast
  from Cons.prems[unfolded step] obtain ol' orr' where
    rec: "filter_loop cs st1 ls rs' = Inr (ol', orr', st', cs')"
    and o: "ol = ox # ol'" "orr = oy # orr'"
    by (auto simp: and_then_Inr_iff)
  from Cons.IH[OF rec] o rs show ?case by simp
qed

lemma UnknownFilter_process_total:
  assumes "length ls \<le> length rs"
  shows "\<exists>ol orr f'. UnknownFilter_process f ls rs = Inr (ol, orr, f') \<and>
           length ol = length ls \<and> length orr = length ls"
proof -
  from filter_loop_total[OF assms, of "C f" "state f"] obtain ol orr st' where
    "filter_loop (C f) (state f) ls rs = Inr (ol, orr, st', C f)"
    "length ol = length ls" "length orr = length ls" by blast
  then show ?thesis by (simp add: UnknownFilter_process_def)
qed

lemma UnknownFilter_process_shape:
  assumes "UnknownFilter_process f ls rs = Inr (ol, orr, f')"
  shows "length ol = length ls \<and> length orr = length ls \<and> length ls \<le> length rs \<and> C f' = C f"
proof -
  from assms obtain st' cs' where
    l: "filter_loop (C f) (state f) ls rs = Inr (ol, orr, st', cs')"
    and f': "f' = f\<lparr> state := st', C := cs' \<rparr>"
    by (auto simp: UnknownFilter_process_def and_then_Inr_iff)
  from filter_loop_shape[OF l] f' show ?thesis by simp
qed


lemma filter_py_coefficients:
  "calculate_coefficients filter_py_P =
     Inr (1, 1,
          21702805830713853 / 10 ^ 17 - 7929947002337122 / 10 ^ 16 + 9999999999999999 / 10 ^ 16,
          (21702805830713853 / 10 ^ 17 - 9999999999999999 / 10 ^ 16) * 2,
          21702805830713853 / 10 ^ 17 + 7929947002337122 / 10 ^ 16 + 9999999999999999 / 10 ^ 16)"
  by (simp add: calculate_coefficients_def filter_py_P_def complex_root_def py_div_def)

lemma UnknownFilter_py_init_eq:
  "UnknownFilter_py_init =
     Inr \<lparr> py_P = filter_py_P,
           py_C = (1, 1,
              21702805830713853 / 10 ^ 17 - 7929947002337122 / 10 ^ 16 + 9999999999999999 / 10 ^ 16,
              (21702805830713853 / 10 ^ 17 - 9999999999999999 / 10 ^ 16) * 2,
              21702805830713853 / 10 ^ 17 + 7929947002337122 / 10 ^ 16 + 9999999999999999 / 10 ^ 16),
           py_state = (0, 0, 0, 0) \<rparr>"
  by (simp add: UnknownFilter_py_init_def filter_py_coefficients)

lemma UnknownFilter_process_no_zero_division:
  "UnknownFilter_process f ls rs \<noteq> Inl ZeroDivisionError"
  using filter_loop_no_zero_division[of "C f" "state f" ls rs]
  by (auto simp: UnknownFilter_process_def and_then_Inl_iff)


section \<open>Properties of the composite: parameter updates\<close>

lemma interpolate_loop_total:
  "sorted_wrt (<) (map fst points) \<Longrightarrow> \<exists>v. interpolate_loop knob_val points = Inr v"
proof (induction knob_val points rule: interpolate_loop.induct)
  case (1 knob_val k1 v1 k2 v2 rest)
  then have "k2 - k1 \<noteq> 0" by simp
  with 1 show ?case by (auto simp: py_div_def)
qed simp_all

lemma interpolate_curve_total:
  assumes "points \<noteq> []" and "sorted_wrt (<) (map fst points)"
  shows "\<exists>v. interpolate_curve knob_val points = Inr v"
proof -
  have "sorted (map fst points)" using assms(2) by (simp add: strict_sorted_imp_sorted)
  then have s: "sort_key fst points = points" by (rule sort_key_id_if_sorted)
  obtain first rest where p: "points = first # rest" using assms(1) by (cases points) auto
  from interpolate_loop_total[OF assms(2), of knob_val] obtain v where
    "interpolate_loop knob_val (first # rest) = Inr v" unfolding p by blast
  then show ?thesis
    unfolding interpolate_curve_def s unfolding p by auto
qed


lemma curves_total:
  "\<exists>v. interpolate_curve knob_val MID_GAIN_CURVE = Inr v"
  "\<exists>v. interpolate_curve knob_val HIGH_LIMITER_THRESH_CURVE = Inr v"
  "\<exists>v. interpolate_curve knob_val HIGH_LIMITER_SHAPE_CURVE = Inr v"
  by (rule interpolate_curve_total;
      simp add: MID_GAIN_CURVE_def HIGH_LIMITER_THRESH_CURVE_def HIGH_LIMITER_SHAPE_CURVE_def)+

text \<open>
  Claim C5 (parameter updates keep the state). \<^verbatim>\<open>set_parameters\<close> always returns; the
  two filters, the mid compressor, the gate and the three gain stages are the same
  records afterwards, and so are the limiter's detector and gain states, its sample
  rate, mode and time constants. What changes is the three knob values and the
  limiter's threshold and ratio.
\<close>

theorem set_parameters_keeps_state:
  "\<exists>thr rat.
     FreshAirClone_set_parameters s mid_air high_air trim_db =
       Inr (s\<lparr> knob_mid := mid_air, knob_high := high_air, knob_trim := trim_db,
               high_limiter := (high_limiter s)\<lparr> threshold := thr, ratio := rat \<rparr> \<rparr>) \<and>
     (\<forall>s'. FreshAirClone_set_parameters s mid_air high_air trim_db = Inr s' \<longrightarrow>
        mid_filter s' = mid_filter s \<and> high_filter s' = high_filter s \<and>
        mid_compressor s' = mid_compressor s \<and> high_gate s' = high_gate s \<and>
        high_gain s' = high_gain s \<and> trim_gain s' = trim_gain s \<and>
        static_pad s' = static_pad s \<and>
        rms_state (high_limiter s') = rms_state (high_limiter s) \<and>
        peak_state (high_limiter s') = peak_state (high_limiter s) \<and>
        gain_state (high_limiter s') = gain_state (high_limiter s) \<and>
        sample_rate (high_limiter s') = sample_rate (high_limiter s) \<and>
        mode (high_limiter s') = mode (high_limiter s) \<and>
        attack_time (high_limiter s') = attack_time (high_limiter s) \<and>
        release_time (high_limiter s') = release_time (high_limiter s) \<and>
        clone_sample_rate s' = clone_sample_rate s \<and>
        knob_mid s' = mid_air \<and> knob_high s' = high_air \<and> knob_trim s' = trim_db)"
proof -
  from curves_total(3)[of high_air] obtain sl where
    sl: "interpolate_curve high_air HIGH_LIMITER_SHAPE_CURVE = Inr sl" by blast
  from curves_total(2)[of high_air] obtain thr where
    thr: "interpolate_curve high_air HIGH_LIMITER_THRESH_CURVE = Inr thr" by blast
  have "\<exists>rat. (if sl < 1 then py_div 1 (1 - sl) else Inr 20) = Inr rat"
    by (auto simp: py_div_def)
  then obtain rat where rat: "(if sl < 1 then py_div 1 (1 - sl) else Inr 20) = Inr rat" by blast
  have "FreshAirClone_set_parameters s mid_air high_air trim_db =
       Inr (s\<lparr> knob_mid := mid_air, knob_high := high_air, knob_trim := trim_db,
               high_limiter := (high_limiter s)\<lparr> threshold := thr, ratio := rat \<rparr> \<rparr>)"
    unfolding FreshAirClone_set_parameters_def sl thr and_then.simps rat ..
  then show ?thesis by (intro exI[of _ thr] exI[of _ rat]) simp
qed

theorem set_parameters_keeps_state_witness:
  "\<exists>s'. FreshAirClone_set_parameters (FreshAirClone_init 44100) 0 (1 / 4) 20 = Inr s' \<and>
     mid_filter s' = mid_filter (FreshAirClone_init 44100) \<and>
     high_filter s' = high_filter (FreshAirClone_init 44100) \<and>
     mid_compressor s' = mid_compressor (FreshAirClone_init 44100) \<and>
     high_gate s' = high_gate (FreshAirClone_init 44100) \<and>
     high_gain s' = high_gain (FreshAirClone_init 44100) \<and>
     trim_gain s' = trim_gain (FreshAirClone_init 44100) \<and>
     static_pad s' = static_pad (FreshAirClone_init 44100) \<and>
     rms_state (high_limiter s') = 0 \<and> peak_state (high_limiter s') = 0 \<and>
     gain_state (high_limiter s') = 1 \<and> knob_high s' = 1 / 4 \<and> knob_trim s' = 20"
proof -
  from set_parameters_keeps_state[of "FreshAirClone_init 44100" 0 "1 / 4" 20]
  obtain thr rat where
    r: "FreshAirClone_set_parameters (FreshAirClone_init 44100) 0 (1 / 4) 20 =
       Inr ((FreshAirClone_init 44100)\<lparr> knob_mid := 0, knob_high := 1 / 4, knob_trim := 20,
               high_limiter := (high_limiter (FreshAirClone_init 44100))
                 \<lparr> threshold := thr, ratio := rat \<rparr> \<rparr>)"
    by blast
  have "rms_state (high_limiter (FreshAirClone_init 44100)) = 0"
    "peak_state (high_limiter (FreshAirClone_init 44100)) = 0"
    "gain_state (high_limiter (FreshAirClone_init 44100)) = 1"
    by (simp_all add: FreshAirClone_init_def UnknownCompressor_init_def)
  with r show ?thesis by simp
qed

section \<open>Properties of the composite: processing a block\<close>

lemma setup_ramp_accepts:
  assumes "stage_accepts g tg n"
  shows "\<exists>g1. setup_ramp g tg n = Inr g1 \<and> stored_target_gain g1 = tg \<and> initialized g1"
proof (cases "initialized g")
  case False
  then show ?thesis by (simp add: setup_ramp_first)
next
  case True
  show ?thesis
  proof (cases "\<bar>tg - stored_target_gain g\<bar> < 1 / 10 ^ 15")
    case True
    with \<open>initialized g\<close> show ?thesis by (simp add: setup_ramp_unchanged)
  next
    case False
    with assms True have "n \<noteq> 0" by (simp add: stage_accepts_def)
    with False True show ?thesis by (simp add: setup_ramp_changed)
  qed
qed

lemma gain_process_block_accepts:
  assumes "stage_accepts g (target_of m vn vb) (length ls)" and "length ls \<le> length rs"
  shows "\<exists>g1 g'. setup_ramp g (target_of m vn vb) (length ls) = Inr g1 \<and>
           StereoGainMeter_process_block g ls rs m vn vb =
             Inr (map (\<lambda>i. ls ! i * calculated_gain g1 (target_of m vn vb) (real (Suc i)))
                    [0..<length ls],
                  map (\<lambda>i. rs ! i * calculated_gain g1 (target_of m vn vb) (real (Suc i)))
                    [0..<length ls] @ drop (length ls) rs, g') \<and>
           stored_target_gain g' = target_of m vn vb \<and> initialized g'"
proof -
  from setup_ramp_accepts[OF assms(1)] obtain g1 where
    g1: "setup_ramp g (target_of m vn vb) (length ls) = Inr g1"
    "stored_target_gain g1 = target_of m vn vb" "initialized g1" by blast
  from gain_loop_result[OF assms(2), of "target_of m vn vb" 0 g1] obtain g' where
    "gain_loop (target_of m vn vb) 0 g1 ls rs =
       Inr (map (\<lambda>i. ls ! i * calculated_gain g1 (target_of m vn vb) (0 + real (Suc i)))
              [0..<length ls],
            map (\<lambda>i. rs ! i * calculated_gain g1 (target_of m vn vb) (0 + real (Suc i)))
              [0..<length ls] @ drop (length ls) rs, g')"
    "initialized g' = initialized g1" "stored_target_gain g' = stored_target_gain g1"
    by blast
  with g1 show ?thesis
    by (simp add: StereoGainMeter_process_block_def Let_def)
qed

lemma gain_process_block_constant:
  assumes "initialized g \<longrightarrow> stored_target_gain g = target_of m vn vb"
    and "length ls \<le> length rs"
  shows "\<exists>g'. StereoGainMeter_process_block g ls rs m vn vb =
           Inr (map (\<lambda>x. x * target_of m vn vb) ls,
                map (\<lambda>x. x * target_of m vn vb) (take (length ls) rs) @ drop (length ls) rs,
                g') \<and>
           stored_target_gain g' = target_of m vn vb \<and> initialized g'"
proof (cases "initialized g")
  case True
  with assms(1) have "\<bar>target_of m vn vb - stored_target_gain g\<bar> < 1 / 10 ^ 15" by simp
  from process_block_unchanged[OF True this assms(2)] show ?thesis by blast
next
  case False
  let ?tg = "target_of m vn vb"
  have acc: "stage_accepts g ?tg (length ls)" using False by (simp add: stage_accepts_def)
  from gain_process_block_accepts[OF acc assms(2)] obtain g1 g' where
    g1: "setup_ramp g ?tg (length ls) = Inr g1"
    and r: "StereoGainMeter_process_block g ls rs m vn vb =
             Inr (map (\<lambda>i. ls ! i * calculated_gain g1 ?tg (real (Suc i))) [0..<length ls],
                  map (\<lambda>i. rs ! i * calculated_gain g1 ?tg (real (Suc i)))
                    [0..<length ls] @ drop (length ls) rs, g')"
    and f: "stored_target_gain g' = ?tg" "initialized g'" by blast
  from g1 False have "ramp_step g1 = 0" by (auto simp: setup_ramp_first)
  then have cg: "\<And>d. calculated_gain g1 ?tg d = ?tg" by (simp add: calculated_gain_def)
  have l: "map (\<lambda>i. ls ! i * ?tg) [0..<length ls] = map (\<lambda>x. x * ?tg) ls"
    using map_index_take[of "length ls" ls "\<lambda>x. x * ?tg"] by simp
  have rr: "map (\<lambda>i. rs ! i * ?tg) [0..<length ls] = map (\<lambda>x. x * ?tg) (take (length ls) rs)"
    using map_index_take[OF assms(2), of "\<lambda>x. x * ?tg"] by simp
  from r f show ?thesis by (simp add: cg l rr)
qed

lemma gain_process_block_shape:
  assumes "StereoGainMeter_process_block g ls rs m vn vb = Inr (ol, orr, g')"
  shows "length ol = length ls \<and> length orr = length rs \<and> length ls \<le> length rs"
proof -
  from assms obtain g1 where "gain_loop (target_of m vn vb) 0 g1 ls rs = Inr (ol, orr, g')"
    by (auto simp: StereoGainMeter_process_block_def Let_def and_then_Inr_iff)
  from gain_loop_outputs[OF this] show ?thesis by auto
qed

lemma sum_lanes_eq:
  "n \<le> length dry \<Longrightarrow> n \<le> length mid \<Longrightarrow> n \<le> length high \<Longrightarrow>
   sum_lanes n dry mid high = Inr (map (\<lambda>i. dry ! i + mid ! i + high ! i) [0..<n])"
  by (simp add: sum_lanes_def)

lemma target_of_normal: "target_of 0 v b = v"
  by (simp add: target_of_def)

lemma mid_lane_total:
  assumes "0 < sample_rate (mid_compressor s)" and "0 \<le> threshold (mid_compressor s)"
    and "length l \<le> length r"
  shows "\<exists>mid_l mid_r mf mc. mid_lane s l r = Inr (mid_l, mid_r, mf, mc) \<and>
           length mid_l = length l \<and> length mid_r = length l \<and>
           sample_rate mc = sample_rate (mid_compressor s) \<and>
           threshold mc = threshold (mid_compressor s)"
proof -
  from UnknownFilter_process_total[OF assms(3), of "mid_filter s"] obtain fl fr mf where
    f: "UnknownFilter_process (mid_filter s) l r = Inr (fl, fr, mf)"
    and fl: "length fl = length l" "length fr = length l" by blast
  from curves_total(1)[of "knob_mid s"] obtain d where
    d: "interpolate_curve (knob_mid s) MID_GAIN_CURVE = Inr d" by blast
  let ?dl = "map (\<lambda>x. x * (d - 0.05)) fl"
  let ?dr = "map (\<lambda>x. x * (d - 0.05)) fr"
  have len: "length ?dl \<le> length ?dr" using fl by simp
  from UnknownCompressor_process_block_total[OF assms(1,2) len] obtain ml mr mc where
    c: "UnknownCompressor_process_block (mid_compressor s) ?dl ?dr = Inr (ml, mr, mc)" by blast
  from UnknownCompressor_process_block_shape[OF c] fl have
    "length ml = length l" "length mr = length l"
    "sample_rate mc = sample_rate (mid_compressor s)"
    "threshold mc = threshold (mid_compressor s)" by simp_all
  moreover have "mid_lane s l r = Inr (ml, mr, mf, mc)"
    unfolding mid_lane_def f and_then.simps prod.case d c ..
  ultimately show ?thesis by blast
qed

lemma high_lane_total:
  assumes "0 < sample_rate (high_gate s)" and "0 \<le> threshold (high_gate s)"
    and "0 < sample_rate (high_limiter s)" and "0 \<le> threshold (high_limiter s)"
    and "0 \<le> knob_high s \<and> knob_high s \<le> DBL_MAX"
    and "stage_accepts (high_gain s) (1 + 0.8962 * knob_high s powr 0.8) (length l)"
    and "length l \<le> length r"
  shows "\<exists>high_l high_r hf hg hb hl.
           high_lane s l r = Inr (high_l, high_r, hf, hg, hb, hl) \<and>
           length high_l = length l \<and> length high_r = length l \<and>
           sample_rate hg = sample_rate (high_gate s) \<and> threshold hg = threshold (high_gate s) \<and>
           sample_rate hl = sample_rate (high_limiter s) \<and>
           threshold hl = threshold (high_limiter s)"
proof -
  from UnknownFilter_process_total[OF assms(7), of "high_filter s"] obtain fl fr hf where
    f: "UnknownFilter_process (high_filter s) l r = Inr (fl, fr, hf)"
    and fl: "length fl = length l" "length fr = length l" by blast
  have len1: "length fl \<le> length fr" using fl by simp
  from UnknownCompressor_process_block_total[OF assms(1,2) len1] obtain gl gr hg where
    g: "UnknownCompressor_process_block (high_gate s) fl fr = Inr (gl, gr, hg)" by blast
  from UnknownCompressor_process_block_shape[OF g] fl have
    gl: "length gl = length l" "length gr = length l"
    and hg: "sample_rate hg = sample_rate (high_gate s)" "threshold hg = threshold (high_gate s)"
    by simp_all
  let ?boost = "1 + 0.8962 * knob_high s powr 0.8"
  have p: "py_pow (knob_high s) 0.8 = Inr (knob_high s powr 0.8)"
    using assms(5) by (intro py_pow_knob) simp_all
  have acc: "stage_accepts (high_gain s) (target_of 0 ?boost 0) (length gl)"
    using assms(6) gl by (simp add: target_of_normal)
  have len2: "length gl \<le> length gr" using gl by simp
  from gain_process_block_accepts[OF acc len2] obtain bl br hb where
    b: "StereoGainMeter_process_block (high_gain s) gl gr 0 ?boost 0 = Inr (bl, br, hb)"
    by blast
  from gain_process_block_shape[OF b] gl have
    bl: "length bl = length l" "length br = length l" by simp_all
  have len3: "length bl \<le> length br" using bl by simp
  from UnknownCompressor_process_block_total[OF assms(3,4) len3] obtain ll lr hl where
    c: "UnknownCompressor_process_block (high_limiter s) bl br = Inr (ll, lr, hl)" by blast
  from UnknownCompressor_process_block_shape[OF c] bl have
    "length ll = length l" "length lr = length l"
    "sample_rate hl = sample_rate (high_limiter s)"
    "threshold hl = threshold (high_limiter s)" by simp_all
  moreover have "high_lane s l r = Inr (ll, lr, hf, hg, hb, hl)"
    unfolding high_lane_def f and_then.simps prod.case g p b c ..
  ultimately show ?thesis using hg by blast
qed

lemma pad_after_trim:
  fixes suml sumr :: "real list"
  assumes n: "length suml = n" "length sumr = n"
    and trl: "trl = map (\<lambda>i. suml ! i * cg i) [0..<length suml]"
    and trr: "trr = map (\<lambda>i. sumr ! i * cg i) [0..<length suml] @ drop (length suml) sumr"
    and ol: "ol = map (\<lambda>x. x * p) trl"
    and orr: "orr = map (\<lambda>x. x * p) (take (length trl) trr) @ drop (length trl) trr"
  shows "length ol = n \<and> length orr = n \<and>
         (\<forall>i<n. ol ! i = suml ! i * cg i * p \<and> orr ! i = sumr ! i * cg i * p)"
proof -
  have trr': "trr = map (\<lambda>i. sumr ! i * cg i) [0..<n]" using trr n by simp
  have trl': "trl = map (\<lambda>i. suml ! i * cg i) [0..<n]" using trl n by simp
  have orr': "orr = map (\<lambda>x. x * p) trr" using orr trl' trr' by simp
  show ?thesis unfolding ol orr' trl' trr' by simp
qed

text \<open>
  Claim C6, amended. For a well-configured composite (in particular a trim whose linear
  gain \<open>10 ^ (trim / 20)\<close> is within the float range) and a block with channels of equal
  length that both knob-driven gain stages accept (every non-empty block, and the empty
  block unless the boost or the trim target changed since the previous call),
  \<^verbatim>\<open>process\<close> returns two lists of the input's length. Sample by sample and per channel
  the output is the sum dry + mid lane + high lane, times the gain of the trim stage
  for that sample (the interpolation towards the target \<open>10 ^ (trim / 20)\<close>, which the
  stage stores), times the pad gain 0.822, which no knob enters. The state returned is
  well configured again.
\<close>

theorem process_sums_lanes:
  assumes "well_configured s" and "length left_in = length right_in"
    and "accepts_block s (length left_in)"
  shows "\<exists>mid_l mid_r mf mc high_l high_r hf hg hb hl tg out_l out_r s'.
     mid_lane s left_in right_in = Inr (mid_l, mid_r, mf, mc) \<and>
     high_lane s left_in right_in = Inr (high_l, high_r, hf, hg, hb, hl) \<and>
     setup_ramp (trim_gain s) (10 powr (knob_trim s / 20)) (length left_in) = Inr tg \<and>
     FreshAirClone_process s left_in right_in = Inr (out_l, out_r, s') \<and>
     length out_l = length left_in \<and> length out_r = length right_in \<and>
     (\<forall>i<length left_in.
        out_l ! i = (left_in ! i + mid_l ! i + high_l ! i) *
                      calculated_gain tg (10 powr (knob_trim s / 20)) (real (Suc i)) * 0.822 \<and>
        out_r ! i = (right_in ! i + mid_r ! i + high_r ! i) *
                      calculated_gain tg (10 powr (knob_trim s / 20)) (real (Suc i)) * 0.822) \<and>
     stored_target_gain (trim_gain s') = 10 powr (knob_trim s / 20) \<and>
     stored_target_gain (static_pad s') = 0.822 \<and> well_configured s'"
proof -
  let ?n = "length left_in"
  let ?trim = "10 powr (knob_trim s / 20)"
  from assms(1) have wc:
    "0 < sample_rate (mid_compressor s)" "0 < sample_rate (high_gate s)"
    "0 < sample_rate (high_limiter s)" "0 \<le> threshold (mid_compressor s)"
    "0 \<le> threshold (high_gate s)" "0 \<le> threshold (high_limiter s)"
    "0 \<le> knob_high s \<and> knob_high s \<le> DBL_MAX"
    "initialized (static_pad s) \<longrightarrow> stored_target_gain (static_pad s) = 0.822"
    "10 powr (knob_trim s / 20) \<le> DBL_MAX"
    by (simp_all add: well_configured_def)
  have pw: "py_pow 10 (knob_trim s / 20) = Inr ?trim"
    by (rule py_pow_ten[OF wc(9)])
  from assms(3) have acc:
    "stage_accepts (high_gain s) (1 + 0.8962 * knob_high s powr 0.8) ?n"
    "stage_accepts (trim_gain s) ?trim ?n"
    by (simp_all add: accepts_block_def)
  have len: "?n \<le> length right_in" using assms(2) by simp
  from mid_lane_total[OF wc(1,4) len] obtain mid_l mid_r mf mc where
    mid: "mid_lane s left_in right_in = Inr (mid_l, mid_r, mf, mc)"
    and ml: "length mid_l = ?n" "length mid_r = ?n"
    and mc: "sample_rate mc = sample_rate (mid_compressor s)"
      "threshold mc = threshold (mid_compressor s)" by blast
  from high_lane_total[OF wc(2,5,3,6,7) acc(1) len] obtain high_l high_r hf hg hb hl where
    high: "high_lane s left_in right_in = Inr (high_l, high_r, hf, hg, hb, hl)"
    and hl: "length high_l = ?n" "length high_r = ?n"
    and hg: "sample_rate hg = sample_rate (high_gate s)" "threshold hg = threshold (high_gate s)"
      "sample_rate hl = sample_rate (high_limiter s)" "threshold hl = threshold (high_limiter s)"
    by blast
  define suml where "suml = map (\<lambda>i. left_in ! i + mid_l ! i + high_l ! i) [0..<?n]"
  define sumr where "sumr = map (\<lambda>i. right_in ! i + mid_r ! i + high_r ! i) [0..<?n]"
  have sl: "sum_lanes ?n left_in mid_l high_l = Inr suml"
    unfolding suml_def using ml hl by (intro sum_lanes_eq) simp_all
  have sr: "sum_lanes ?n right_in mid_r high_r = Inr sumr"
    unfolding sumr_def using ml hl len by (intro sum_lanes_eq) simp_all
  have sn: "length suml = ?n" "length sumr = ?n" by (simp_all add: suml_def sumr_def)
  have acc_t: "stage_accepts (trim_gain s) (target_of 0 ?trim 0) (length suml)"
    using acc(2) sn by (simp add: target_of_normal)
  have len_t: "length suml \<le> length sumr" using sn by simp
  from gain_process_block_accepts[OF acc_t len_t] obtain tg tg' where
    tg: "setup_ramp (trim_gain s) ?trim ?n = Inr tg"
    and trim: "StereoGainMeter_process_block (trim_gain s) suml sumr 0 ?trim 0 =
      Inr (map (\<lambda>i. suml ! i * calculated_gain tg ?trim (real (Suc i))) [0..<length suml],
           map (\<lambda>i. sumr ! i * calculated_gain tg ?trim (real (Suc i))) [0..<length suml]
             @ drop (length suml) sumr, tg')"
    and tg': "stored_target_gain tg' = ?trim"
    by (auto simp: target_of_normal sn)
  define trl where
    "trl = map (\<lambda>i. suml ! i * calculated_gain tg ?trim (real (Suc i))) [0..<length suml]"
  define trr where
    "trr = map (\<lambda>i. sumr ! i * calculated_gain tg ?trim (real (Suc i))) [0..<length suml]
             @ drop (length suml) sumr"
  have len_p: "length trl \<le> length trr" by (simp add: trl_def trr_def)
  have padc: "initialized (static_pad s) \<longrightarrow>
      stored_target_gain (static_pad s) = target_of 0 0.822 0"
    using wc(8) by (simp add: target_of_normal)
  from gain_process_block_constant[OF padc len_p] obtain sp where
    pad: "StereoGainMeter_process_block (static_pad s) trl trr 0 0.822 0 =
      Inr (map (\<lambda>x. x * 0.822) trl,
           map (\<lambda>x. x * 0.822) (take (length trl) trr) @ drop (length trl) trr, sp)"
    and sp: "stored_target_gain sp = 0.822" "initialized sp"
    by (auto simp: target_of_normal)
  define out_l where "out_l = map (\<lambda>x. x * 0.822) trl"
  define out_r where "out_r = map (\<lambda>x. x * 0.822) (take (length trl) trr) @ drop (length trl) trr"
  define s' where
    "s' = s\<lparr> mid_filter := mf, mid_compressor := mc, high_filter := hf, high_gate := hg,
               high_gain := hb, high_limiter := hl, trim_gain := tg', static_pad := sp \<rparr>"
  have run: "FreshAirClone_process s left_in right_in = Inr (out_l, out_r, s')"
    unfolding FreshAirClone_process_def mid high and_then.simps prod.case sl sr pw
      trim[folded trl_def trr_def] pad[folded out_l_def out_r_def] s'_def ..
  from pad_after_trim[OF sn trl_def trr_def out_l_def out_r_def]
  have shape: "length out_l = ?n" "length out_r = ?n"
    and val: "\<forall>i<?n. out_l ! i = suml ! i * calculated_gain tg ?trim (real (Suc i)) * 0.822 \<and>
                      out_r ! i = sumr ! i * calculated_gain tg ?trim (real (Suc i)) * 0.822"
    by simp_all
  have val': "\<forall>i<?n.
        out_l ! i = (left_in ! i + mid_l ! i + high_l ! i) *
                      calculated_gain tg ?trim (real (Suc i)) * 0.822 \<and>
        out_r ! i = (right_in ! i + mid_r ! i + high_r ! i) *
                      calculated_gain tg ?trim (real (Suc i)) * 0.822"
    using val by (simp add: suml_def sumr_def)
  have wc': "well_configured s'"
    using wc mc hg sp by (simp add: well_configured_def s'_def)
  have st: "stored_target_gain (trim_gain s') = ?trim" "stored_target_gain (static_pad s') = 0.822"
    using tg' sp by (simp_all add: s'_def)
  from mid high tg run shape val' st wc' assms(2) show ?thesis by auto
qed


lemma UnknownFilter_process_empty:
  "UnknownFilter_process f [] rs = Inr ([], [], f)"
  by (simp add: UnknownFilter_process_def)

lemma UnknownCompressor_process_block_empty:
  assumes "0 < sample_rate c"
  shows "UnknownCompressor_process_block c [] [] = Inr ([], [], c)"
proof -
  from derive_coeffs_range[OF assms] obtain k where "derive_coeffs c = Inr k" by blast
  then show ?thesis by (simp add: UnknownCompressor_process_block_def)
qed

lemma gain_empty_block:
  "StereoGainMeter_process_block g [] rs 0 v 0 =
     (if \<not> initialized g then
        Inr ([], rs, g\<lparr> initialized := True, start_gain := v, stored_target_gain := v,
                        ramp_step := 0, current_gain := v \<rparr>)
      else if \<bar>v - stored_target_gain g\<bar> \<ge> 1 / 10 ^ 15 then Inl ZeroDivisionError
      else Inr ([], rs, g\<lparr> ramp_step := 0, start_gain := v, stored_target_gain := v \<rparr>))"
  by (simp add: StereoGainMeter_process_block_def Let_def target_of_normal setup_ramp_unchanged
      setup_ramp_changed setup_ramp_first)

lemma first_keys:
  "interpolate_curve 0 MID_GAIN_CURVE = Inr (1485145194824359 / 2 ^ 51)"
  "interpolate_curve 0 HIGH_LIMITER_THRESH_CURVE = Inr (8405405 / 2 ^ 24)"
  "interpolate_curve 0 HIGH_LIMITER_SHAPE_CURVE = Inr (12399377 / 2 ^ 24)"
  by (simp_all add: interpolate_curve_def MID_GAIN_CURVE_def HIGH_LIMITER_THRESH_CURVE_def
      HIGH_LIMITER_SHAPE_CURVE_def)

lemma clone_first_fields:
  "mid_filter clone_first = mid_filter (FreshAirClone_init 44100)"
  "mid_compressor clone_first = mid_compressor (FreshAirClone_init 44100)"
  "high_filter clone_first = high_filter (FreshAirClone_init 44100)"
  "high_gate clone_first = high_gate (FreshAirClone_init 44100)"
  "high_limiter clone_first = high_limiter (FreshAirClone_init 44100)"
  "high_gain clone_first = snapped 1" "trim_gain clone_first = snapped 1"
  "static_pad clone_first = snapped 0.822"
  "knob_mid clone_first = 0" "knob_high clone_first = 0" "knob_trim clone_first = 0"
  by (simp_all add: clone_first_def FreshAirClone_init_def)

lemma init_fields:
  "sample_rate (mid_compressor (FreshAirClone_init 44100)) = 44100"
  "sample_rate (high_gate (FreshAirClone_init 44100)) = 44100"
  "sample_rate (high_limiter (FreshAirClone_init 44100)) = 44100"
  "high_gain (FreshAirClone_init 44100) = StereoGainMeter_init 0.1 0.1"
  "trim_gain (FreshAirClone_init 44100) = StereoGainMeter_init 0.1 0.1"
  "static_pad (FreshAirClone_init 44100) = StereoGainMeter_init 0.1 0.1"
  "knob_mid (FreshAirClone_init 44100) = 0" "knob_high (FreshAirClone_init 44100) = 0"
  "knob_trim (FreshAirClone_init 44100) = 0"
  by (simp_all add: FreshAirClone_init_def UnknownCompressor_init_def)

lemma first_call_snaps:
  "StereoGainMeter_process_block (StereoGainMeter_init 0.1 0.1) [] [] 0 v 0 =
     Inr ([], [], snapped v)"
  by (simp add: gain_empty_block StereoGainMeter_init_def snapped_def)

lemma process_first_empty:
  "FreshAirClone_process (FreshAirClone_init 44100) [] [] = Inr ([], [], clone_first)"
proof -
  let ?s = "FreshAirClone_init 44100"
  have m: "mid_lane ?s [] [] = Inr ([], [], mid_filter ?s, mid_compressor ?s)"
    by (simp add: mid_lane_def UnknownFilter_process_empty init_fields first_keys
        UnknownCompressor_process_block_empty)
  have h: "high_lane ?s [] [] =
      Inr ([], [], high_filter ?s, high_gate ?s, snapped 1, high_limiter ?s)"
    by (simp add: high_lane_def UnknownFilter_process_empty init_fields py_pow_def
        UnknownCompressor_process_block_empty first_call_snaps)
  show ?thesis
    by (simp add: FreshAirClone_process_def m h sum_lanes_def init_fields py_pow_def
        first_call_snaps clone_first_def)
qed

lemma update_after_first:
  "FreshAirClone_set_parameters clone_first 0 0 20 = Inr clone_updated"
  by (simp add: FreshAirClone_set_parameters_def first_keys py_div_def clone_updated_def
      clone_first_def FreshAirClone_init_def)

lemma clone_updated_fields:
  "mid_filter clone_updated = mid_filter (FreshAirClone_init 44100)"
  "mid_compressor clone_updated = mid_compressor (FreshAirClone_init 44100)"
  "high_filter clone_updated = high_filter (FreshAirClone_init 44100)"
  "high_gate clone_updated = high_gate (FreshAirClone_init 44100)"
  "sample_rate (high_limiter clone_updated) = 44100"
  "threshold (high_limiter clone_updated) = 8405405 / 2 ^ 24"
  "high_gain clone_updated = snapped 1" "trim_gain clone_updated = snapped 1"
  "static_pad clone_updated = snapped 0.822"
  "knob_mid clone_updated = 0" "knob_high clone_updated = 0" "knob_trim clone_updated = 20"
  by (simp_all add: clone_updated_def clone_first_fields init_fields)

lemma snapped_fields:
  "initialized (snapped v)" "stored_target_gain (snapped v) = v"
  "start_gain (snapped v) = v" "ramp_step (snapped v) = 0"
  by (simp_all add: snapped_def)

lemma process_updated_empty:
  "FreshAirClone_process clone_updated [] [] = Inl ZeroDivisionError"
proof -
  let ?s = "FreshAirClone_init 44100"
  have m: "mid_lane clone_updated [] [] = Inr ([], [], mid_filter ?s, mid_compressor ?s)"
    by (simp add: mid_lane_def UnknownFilter_process_empty clone_updated_fields init_fields
        first_keys UnknownCompressor_process_block_empty)
  have h: "high_lane clone_updated [] [] =
      Inr ([], [], high_filter ?s, high_gate ?s,
           (snapped 1)\<lparr> ramp_step := 0, start_gain := 1, stored_target_gain := 1 \<rparr>,
           high_limiter clone_updated)"
    by (simp add: high_lane_def UnknownFilter_process_empty clone_updated_fields init_fields
        py_pow_def UnknownCompressor_process_block_empty gain_empty_block snapped_fields)
  have "py_pow 10 1 = Inr (10 powr 1)"
    using DBL_MAX_ge_ten by (intro py_pow_ten) simp
  then have p: "py_pow 10 (knob_trim clone_updated / 20) = Inr 10"
    by (simp add: clone_updated_fields)
  have t: "StereoGainMeter_process_block (trim_gain clone_updated) [] [] 0 10 0 =
      Inl ZeroDivisionError"
    by (simp add: gain_empty_block clone_updated_fields snapped_fields)
  show ?thesis
    unfolding FreshAirClone_process_def m h and_then.simps prod.case
    by (simp add: sum_lanes_def p t)
qed

lemma clone_loud_fields:
  "sample_rate (mid_compressor clone_loud) = 44100"
  "threshold (mid_compressor clone_loud) = 0.0316"
  "sample_rate (high_gate clone_loud) = 44100" "threshold (high_gate clone_loud) = 0"
  "sample_rate (high_limiter clone_loud) = 44100"
  "threshold (high_limiter clone_loud) = 8405405 / 2 ^ 24"
  "high_gain clone_loud = StereoGainMeter_init 0.1 0.1"
  "knob_high clone_loud = 0" "knob_trim clone_loud = 10000"
  by (simp_all add: clone_loud_def FreshAirClone_init_def UnknownCompressor_init_def)

lemma update_loud:
  "FreshAirClone_set_parameters (FreshAirClone_init 44100) 0 0 10000 = Inr clone_loud"
  by (simp add: FreshAirClone_set_parameters_def first_keys py_div_def clone_loud_def
      FreshAirClone_init_def)

lemma process_loud:
  "FreshAirClone_process clone_loud [0] [0] = Inl OverflowError"
proof -
  have len: "length [0 :: real] \<le> length [0 :: real]" by simp
  have "0 < sample_rate (mid_compressor clone_loud)" "0 \<le> threshold (mid_compressor clone_loud)"
    by (simp_all add: clone_loud_fields)
  from mid_lane_total[OF this len] obtain mid_l mid_r mf mc where
    mid: "mid_lane clone_loud [0] [0] = Inr (mid_l, mid_r, mf, mc)"
    and ml: "length mid_l = 1" "length mid_r = 1" by auto
  have "0 < sample_rate (high_gate clone_loud)" "0 \<le> threshold (high_gate clone_loud)"
    "0 < sample_rate (high_limiter clone_loud)" "0 \<le> threshold (high_limiter clone_loud)"
    "0 \<le> knob_high clone_loud \<and> knob_high clone_loud \<le> DBL_MAX"
    "stage_accepts (high_gain clone_loud) (1 + 0.8962 * knob_high clone_loud powr 0.8)
       (length [0 :: real])"
    using DBL_MAX_ge_one by (simp_all add: clone_loud_fields stage_accepts_def)
  from high_lane_total[OF this len] obtain high_l high_r hf hg hb hl where
    high: "high_lane clone_loud [0] [0] = Inr (high_l, high_r, hf, hg, hb, hl)"
    and hl: "length high_l = 1" "length high_r = 1" by auto
  have sl: "\<exists>v. sum_lanes (length [0 :: real]) [0] mid_l high_l = Inr v"
    "\<exists>v. sum_lanes (length [0 :: real]) [0] mid_r high_r = Inr v"
    using ml hl by (simp_all add: sum_lanes_def)
  then obtain vl vr where
    v: "sum_lanes (length [0 :: real]) [0] mid_l high_l = Inr vl"
    "sum_lanes (length [0 :: real]) [0] mid_r high_r = Inr vr" by blast
  have "knob_trim clone_loud / 20 = 500" by (simp add: clone_loud_fields)
  then have p: "py_pow 10 (knob_trim clone_loud / 20) = Inl OverflowError"
    by (simp only: py_pow_ten_overflow)
  show ?thesis
    unfolding FreshAirClone_process_def mid high and_then.simps prod.case v p ..
qed

text \<open>
  Claim C6 fails as stated in two situations. The first is the empty block after a
  change of the trim (or boost) target: a composite that has processed one empty block
  and was then given a trim of 20 dB raises on the next empty block instead of returning
  two empty lists, because the trim stage divides 1 by the block size. The second is a
  trim whose linear gain is beyond the float range: a fresh composite given a trim of
  10000 dB raises a range error on the block \<open>([0], [0])\<close>, when \<^verbatim>\<open>math.pow(10, 500.0)\<close>
  is computed.
\<close>

theorem process_empty_block_counterexample:
  "FreshAirClone_process (FreshAirClone_init 44100) [] [] = Inr ([], [], clone_first) \<and>
   FreshAirClone_set_parameters clone_first 0 0 20 = Inr clone_updated \<and>
   FreshAirClone_process clone_updated [] [] = Inl ZeroDivisionError \<and>
   FreshAirClone_set_parameters (FreshAirClone_init 44100) 0 0 10000 = Inr clone_loud \<and>
   FreshAirClone_process clone_loud [0] [0] = Inl OverflowError"
  using process_first_empty update_after_first process_updated_empty update_loud process_loud
  by simp

lemma well_configured_init:
  "0 < rate \<Longrightarrow> well_configured (FreshAirClone_init rate)"
  using DBL_MAX_ge_one
  by (simp add: well_configured_def FreshAirClone_init_def UnknownCompressor_init_def
      StereoGainMeter_init_def)

lemma well_configured_updated: "well_configured clone_updated"
  using DBL_MAX_ge_ten
  by (simp add: well_configured_def clone_updated_fields init_fields snapped_fields
      FreshAirClone_init_def UnknownCompressor_init_def)

theorem process_sums_lanes_witness:
  "well_configured clone_updated \<and> length [1 :: real] = length [1 :: real] \<and>
   accepts_block clone_updated (length [1 :: real]) \<and>
   (\<exists>mid_l mid_r mf mc high_l high_r hf hg hb hl out_l out_r s'.
      mid_lane clone_updated [1] [1] = Inr (mid_l, mid_r, mf, mc) \<and>
      high_lane clone_updated [1] [1] = Inr (high_l, high_r, hf, hg, hb, hl) \<and>
      FreshAirClone_process clone_updated [1] [1] = Inr (out_l, out_r, s') \<and>
      length out_l = 1 \<and> length out_r = 1 \<and>
      out_l ! 0 = (1 + mid_l ! 0 + high_l ! 0) * 10 * 0.822 \<and>
      out_r ! 0 = (1 + mid_r ! 0 + high_r ! 0) * 10 * 0.822 \<and>
      stored_target_gain (trim_gain s') = 10 \<and> stored_target_gain (static_pad s') = 0.822)"
proof -
  have acc: "accepts_block clone_updated (length [1 :: real])"
    by (simp add: accepts_block_def stage_accepts_def)
  have trim: "10 powr (knob_trim clone_updated / 20) = (10 :: real)"
    by (simp add: clone_updated_fields)
  have su: "setup_ramp (trim_gain clone_updated) 10 (length [1 :: real]) =
      Inr ((snapped 1)\<lparr> ramp_step := 1, start_gain := 1, stored_target_gain := 10 \<rparr>)"
    by (simp add: clone_updated_fields setup_ramp_changed snapped_fields)
  have cg: "calculated_gain ((snapped 1)\<lparr> ramp_step := 1, start_gain := 1,
      stored_target_gain := 10 \<rparr>) 10 (real (Suc 0)) = 10"
    by (simp add: calculated_gain_def)
  from process_sums_lanes[OF well_configured_updated _ acc, of "[1]"]
  obtain mid_l mid_r mf mc high_l high_r hf hg hb hl tg out_l out_r s' where
    r: "mid_lane clone_updated [1] [1] = Inr (mid_l, mid_r, mf, mc)"
    "high_lane clone_updated [1] [1] = Inr (high_l, high_r, hf, hg, hb, hl)"
    "setup_ramp (trim_gain clone_updated) 10 (length [1 :: real]) = Inr tg"
    "FreshAirClone_process clone_updated [1] [1] = Inr (out_l, out_r, s')"
    "length out_l = 1" "length out_r = 1"
    and v: "\<forall>i<length [1 :: real].
        out_l ! i = ([1] ! i + mid_l ! i + high_l ! i) * calculated_gain tg 10 (real (Suc i)) * 0.822 \<and>
        out_r ! i = ([1] ! i + mid_r ! i + high_r ! i) * calculated_gain tg 10 (real (Suc i)) * 0.822"
    and st: "stored_target_gain (trim_gain s') = 10" "stored_target_gain (static_pad s') = 0.822"
    unfolding trim by auto
  from r(3) su have tg: "tg = (snapped 1)\<lparr> ramp_step := 1, start_gain := 1,
      stored_target_gain := 10 \<rparr>" by simp
  from v[rule_format, of 0] have
    "out_l ! 0 = (1 + mid_l ! 0 + high_l ! 0) * 10 * 0.822"
    "out_r ! 0 = (1 + mid_r ! 0 + high_r ! 0) * 10 * 0.822"
    unfolding tg cg by simp_all
  with r st acc well_configured_updated show ?thesis by auto
qed

lemma lerp_nonneg:
  assumes "0 \<le> a" "0 \<le> b" "0 \<le> t" "t \<le> 1"
  shows "0 \<le> lerp a b t"
proof -
  have "lerp a b t = a * (1 - t) + b * t" by (simp add: lerp_def algebra_simps)
  moreover have "0 \<le> a * (1 - t)" "0 \<le> b * t" using assms by simp_all
  ultimately show ?thesis by linarith
qed

lemma interpolate_loop_nonneg:
  "sorted_wrt (<) (map fst points) \<Longrightarrow> \<forall>p\<in>set points. 0 \<le> snd p \<Longrightarrow>
   interpolate_loop knob_val points = Inr v \<Longrightarrow> 0 \<le> v"
proof (induction knob_val points rule: interpolate_loop.induct)
  case (1 knob_val k1 v1 k2 v2 rest)
  show ?case
  proof (cases "k1 \<le> knob_val \<and> knob_val \<le> k2")
    case True
    from "1.prems"(1) have lt: "k1 < k2" by simp
    let ?t = "(knob_val - k1) / (k2 - k1)"
    have t: "0 \<le> ?t" "?t \<le> 1" using True lt by (simp_all add: field_simps)
    have "0 \<le> v1" "0 \<le> v2" using "1.prems"(2) by simp_all
    from lerp_nonneg[OF this t] "1.prems"(3) True lt show ?thesis
      by (simp add: py_div_def)
  next
    case False
    with "1.prems" "1.IH" show ?thesis by simp
  qed
qed simp_all

lemma interpolate_curve_nonneg:
  assumes "sorted_wrt (<) (map fst points)" and "\<forall>p\<in>set points. 0 \<le> snd p"
    and "interpolate_curve knob_val points = Inr v"
  shows "0 \<le> v"
proof -
  have "sorted (map fst points)" using assms(1) by (simp add: strict_sorted_imp_sorted)
  then have s: "sort_key fst points = points" by (rule sort_key_id_if_sorted)
  from assms(3) obtain first rest where p: "points = first # rest"
    unfolding interpolate_curve_def s by (cases points) auto
  have l: "last (first # rest) \<in> set points" unfolding p by (rule last_in_set) simp
  have f: "first \<in> set points" unfolding p by simp
  from assms(3) have
    "v = snd first \<or> v = snd (last (first # rest)) \<or>
     interpolate_loop knob_val points = Inr v"
    unfolding interpolate_curve_def s unfolding p by (auto split: if_splits)
  then show ?thesis
    using assms(2) l f interpolate_loop_nonneg[OF assms(1,2)] by auto
qed

lemma set_parameters_well_configured:
  assumes "well_configured s" and "0 \<le> high_air \<and> high_air \<le> DBL_MAX"
    and "10 powr (trim_db / 20) \<le> DBL_MAX"
    and "FreshAirClone_set_parameters s mid_air high_air trim_db = Inr s'"
  shows "well_configured s'"
proof -
  from assms(4) obtain sl rat thr where
    thr: "interpolate_curve high_air HIGH_LIMITER_THRESH_CURVE = Inr thr"
    and s': "s' = s\<lparr> knob_mid := mid_air, knob_high := high_air, knob_trim := trim_db,
               high_limiter := (high_limiter s)\<lparr> threshold := thr, ratio := rat \<rparr> \<rparr>"
    by (auto simp: FreshAirClone_set_parameters_def and_then_Inr_iff)
  have "0 \<le> thr"
    by (rule interpolate_curve_nonneg[OF _ _ thr])
      (simp_all add: HIGH_LIMITER_THRESH_CURVE_def)
  with assms(1,2,3) show ?thesis by (simp add: well_configured_def s')
qed

end
